theory Spec2Isabelle
  imports Main
begin

section \<open>Row-level security policies of schema/RLS\_HARDENING.sql\<close>

text \<open>
  The program is the set of \<^verbatim>\<open>CREATE POLICY\<close> declarations of
  \<^verbatim>\<open>schema/RLS_HARDENING.sql\<close> together with the helper functions that read the
  custom JWT claims. A policy is data: a name, the command it is declared for and
  a boolean SQL expression over the target row and the JWT claims. The expressions
  are kept as a small syntax tree and evaluated as the database evaluates them for a
  caller who is subject to row-level security: with SQL's three-valued logic
  (a truth value is \<open>Some True\<close>, \<open>Some False\<close> or \<open>None\<close>, SQL NULL), with the errors
  that abort the statement as values, and with every sub-select of a policy reading its
  table through the policies of that table.
\<close>

subsection \<open>Values, rows, claims\<close>

text \<open>
  Column values and claim values are text; a uuid is written as its canonical text,
  lower-case in groups of 8-4-4-4-12 digits, and a uuid column holds such a text.
  A row maps a column name to its value, \<open>None\<close> being NULL. The claims are the
  JSON object of \<^verbatim>\<open>current_setting('request.jwt.claims', true)\<close>; the operator
  \<^verbatim>\<open>->>\<close> yields NULL for a key the object lacks.
\<close>

type_synonym val = string
type_synonym row = "string \<rightharpoonup> val"
type_synonym claims = "string \<rightharpoonup> val"

text \<open>The stored tables: table name to rows.\<close>

type_synonym tables = "string \<Rightarrow> row list"

text \<open>
  The two errors a policy of the file can raise. Either aborts the statement:
  \<^verbatim>\<open>invalid input syntax for type uuid\<close>, raised by a \<^verbatim>\<open>::uuid\<close> cast, and
  \<^verbatim>\<open>infinite recursion detected in policy\<close>, raised when the policies of a table
  are expanded.
\<close>

datatype sql_error = InvalidUuid string | InfiniteRecursion

subsection \<open>The cast to uuid\<close>

text \<open>
  The cast \<^verbatim>\<open>::uuid\<close> of a text reads sixteen bytes of two hexadecimal digits each,
  in either case, with an optional hyphen after each group of four digits, the whole
  optionally in braces, and nothing after. Any other text raises the error. The value
  is the canonical text of the sixteen bytes.
\<close>

definition is_hex :: "char \<Rightarrow> bool" where
  "is_hex c = (c \<in> set ''0123456789abcdefABCDEF'')"

definition lower_hex :: "char \<Rightarrow> char" where
  "lower_hex c = (case map_of (zip ''ABCDEF'' ''abcdef'') c of Some d \<Rightarrow> d | None \<Rightarrow> c)"

text \<open>
  \<open>uuid_bytes is s\<close> reads the bytes numbered \<open>is\<close> from \<open>s\<close> and returns their digits and
  the rest of the text. Byte \<open>i\<close>, counted from 0, may be followed by a hyphen when \<open>i\<close>
  is odd and not the last.
\<close>

fun uuid_bytes :: "nat list \<Rightarrow> string \<Rightarrow> (string \<times> string) option" where
  "uuid_bytes [] s = Some ([], s)"
| "uuid_bytes (i # is) (a # b # s) =
     (if is_hex a \<and> is_hex b
      then map_option (\<lambda>(ds, rest). (lower_hex a # lower_hex b # ds, rest))
             (uuid_bytes is
                (case s of
                   [] \<Rightarrow> s
                 | c # s' \<Rightarrow> if c = CHR ''-'' \<and> i mod 2 = 1 \<and> i < 15 then s' else s))
      else None)"
| "uuid_bytes (i # is) s = None"

definition uuid_out :: "string \<Rightarrow> string" where
  "uuid_out ds =
     take 8 ds @ ''-'' @ take 4 (drop 8 ds) @ ''-'' @ take 4 (drop 12 ds) @ ''-''
       @ take 4 (drop 16 ds) @ ''-'' @ drop 20 ds"

definition uuid_in :: "string \<Rightarrow> sql_error + val" where
  "uuid_in s =
     (let braces = (case s of [] \<Rightarrow> False | c # s' \<Rightarrow> c = CHR ''{'');
          src = (if braces then tl s else s)
      in case uuid_bytes [0..<16] src of
           None \<Rightarrow> Inl (InvalidUuid s)
         | Some (ds, rest) \<Rightarrow>
             if rest = (if braces then ''}'' else []) then Inr (uuid_out ds)
             else Inl (InvalidUuid s))"

text \<open>The cast of NULL is NULL.\<close>

fun cast_uuid :: "val option \<Rightarrow> sql_error + val option" where
  "cast_uuid None = Inr None"
| "cast_uuid (Some s) = (case uuid_in s of Inl e \<Rightarrow> Inl e | Inr u \<Rightarrow> Inr (Some u))"

subsection \<open>Section 1 of the file: the claim helpers\<close>

definition get_jwt_claim :: "claims \<Rightarrow> string \<Rightarrow> val option" where
  "get_jwt_claim cl claim_name = cl claim_name"

definition get_jwt_role :: "claims \<Rightarrow> val option" where
  "get_jwt_role cl = cl ''role''"

definition get_crew_member_id :: "claims \<Rightarrow> sql_error + val option" where
  "get_crew_member_id cl = cast_uuid (cl ''crew_member_id'')"

definition get_contact_id :: "claims \<Rightarrow> sql_error + val option" where
  "get_contact_id cl = cast_uuid (cl ''contact_id'')"

definition get_jwt_sub :: "claims \<Rightarrow> val option" where
  "get_jwt_sub cl = cl ''sub''"

subsection \<open>Policy expressions\<close>

datatype jwt_fn = Jwt_role | Jwt_crew_member_id | Jwt_contact_id | Jwt_sub | Jwt_claim string

datatype operand =
    Col string          \<comment> \<open>a column, unqualified: \<^verbatim>\<open>job_id\<close>\<close>
  | QCol string string  \<comment> \<open>a column under a table name: \<^verbatim>\<open>jobs.id\<close>\<close>
  | Lit val             \<comment> \<open>a literal\<close>
  | Call jwt_fn         \<comment> \<open>a call of one of the helpers of section 1\<close>

datatype expr =
    ETrue                                   \<comment> \<open>\<^verbatim>\<open>true\<close>\<close>
  | Eq operand operand                      \<comment> \<open>\<^verbatim>\<open>a = b\<close>\<close>
  | InList operand "val list"               \<comment> \<open>\<^verbatim>\<open>a IN ('x', 'y')\<close>\<close>
  | InSub operand string string expr        \<comment> \<open>\<^verbatim>\<open>a IN (SELECT col FROM tab WHERE e)\<close>\<close>
  | And expr expr
  | Or expr expr

fun call_jwt :: "claims \<Rightarrow> jwt_fn \<Rightarrow> sql_error + val option" where
  "call_jwt cl Jwt_role = Inr (get_jwt_role cl)"
| "call_jwt cl Jwt_crew_member_id = get_crew_member_id cl"
| "call_jwt cl Jwt_contact_id = get_contact_id cl"
| "call_jwt cl Jwt_sub = Inr (get_jwt_sub cl)"
| "call_jwt cl (Jwt_claim k) = Inr (get_jwt_claim cl k)"

text \<open>
  The rows in scope where an expression is evaluated, innermost first, each under the
  name of its table: the row the policy is tested on, and inside a sub-select the row
  of its FROM table before it. An unqualified column is read from the innermost row
  (in every sub-select of the file the unqualified columns are columns of its FROM
  table); a qualified column is read from the row of the table it names.
\<close>

type_synonym scope = "(string \<times> row) list"

fun eval_operand :: "claims \<Rightarrow> scope \<Rightarrow> operand \<Rightarrow> sql_error + val option" where
  "eval_operand cl [] (Col c) = Inr None"
| "eval_operand cl ((t, r) # sc) (Col c) = Inr (r c)"
| "eval_operand cl sc (QCol t c) = Inr (case map_of sc t of None \<Rightarrow> None | Some r \<Rightarrow> r c)"
| "eval_operand cl sc (Lit v) = Inr (Some v)"
| "eval_operand cl sc (Call f) = call_jwt cl f"

text \<open>SQL comparison: NULL on either side gives NULL.\<close>

fun sql_eq :: "val option \<Rightarrow> val option \<Rightarrow> bool option" where
  "sql_eq (Some a) (Some b) = Some (a = b)"
| "sql_eq _ _ = None"

fun sql_and :: "bool option \<Rightarrow> bool option \<Rightarrow> bool option" where
  "sql_and (Some False) _ = Some False"
| "sql_and _ (Some False) = Some False"
| "sql_and (Some True) (Some True) = Some True"
| "sql_and _ _ = None"

fun sql_or :: "bool option \<Rightarrow> bool option \<Rightarrow> bool option" where
  "sql_or (Some True) _ = Some True"
| "sql_or _ (Some True) = Some True"
| "sql_or (Some False) (Some False) = Some False"
| "sql_or _ _ = None"

text \<open>
  \<^verbatim>\<open>a IN (sub-select)\<close>: true when some selected value equals \<open>a\<close>; otherwise NULL
  when a comparison was NULL (\<open>a\<close> is NULL and the sub-select is not empty, or a
  selected value is NULL); otherwise false.
\<close>

definition sql_in :: "val option \<Rightarrow> val option list \<Rightarrow> bool option" where
  "sql_in a vs =
     (if list_ex (\<lambda>v. sql_eq a v = Some True) vs then Some True
      else if list_ex (\<lambda>v. sql_eq a v = None) vs then None
      else Some False)"

text \<open>
  The rows of a list that pass a test, in order. The test of a row can raise an error,
  and the first error is the result.
\<close>

fun keep_rows :: "(row \<Rightarrow> sql_error + bool) \<Rightarrow> row list \<Rightarrow> sql_error + row list" where
  "keep_rows f [] = Inr []"
| "keep_rows f (r # rs) =
     (case f r of
        Inl e \<Rightarrow> Inl e
      | Inr b \<Rightarrow> (case keep_rows f rs of
                    Inl e \<Rightarrow> Inl e
                  | Inr rs' \<Rightarrow> Inr (if b then r # rs' else rs')))"

text \<open>A WHERE clause keeps a row when its expression is true; NULL and false both drop it.\<close>

fun is_true :: "sql_error + bool option \<Rightarrow> sql_error + bool" where
  "is_true (Inl e) = Inl e"
| "is_true (Inr b) = Inr (b = Some True)"

text \<open>
  The value of an expression. \<open>sub t\<close> is what a sub-select reads from table \<open>t\<close>: the rows
  of \<open>t\<close> the caller may read, or an error. Operands are evaluated in the order written;
  AND stops at a false left operand and OR at a true one, so that the right operand is
  then not evaluated and cannot raise. An error anywhere else is the result.
\<close>

fun eval_expr ::
  "(string \<Rightarrow> sql_error + row list) \<Rightarrow> claims \<Rightarrow> scope \<Rightarrow> expr \<Rightarrow> sql_error + bool option" where
  "eval_expr sub cl sc ETrue = Inr (Some True)"
| "eval_expr sub cl sc (Eq a b) =
     (case eval_operand cl sc a of
        Inl e \<Rightarrow> Inl e
      | Inr x \<Rightarrow> (case eval_operand cl sc b of
                   Inl e \<Rightarrow> Inl e
                 | Inr y \<Rightarrow> Inr (sql_eq x y)))"
| "eval_expr sub cl sc (InList a vs) =
     (case eval_operand cl sc a of
        Inl e \<Rightarrow> Inl e
      | Inr x \<Rightarrow> Inr (sql_in x (map Some vs)))"
| "eval_expr sub cl sc (InSub a c t w) =
     (case eval_operand cl sc a of
        Inl e \<Rightarrow> Inl e
      | Inr x \<Rightarrow>
          (case sub t of
             Inl e \<Rightarrow> Inl e
           | Inr rows \<Rightarrow>
               (case keep_rows (\<lambda>r'. is_true (eval_expr sub cl ((t, r') # sc) w)) rows of
                  Inl e \<Rightarrow> Inl e
                | Inr rs \<Rightarrow> Inr (sql_in x (map (\<lambda>r'. r' c) rs)))))"
| "eval_expr sub cl sc (And e1 e2) =
     (case eval_expr sub cl sc e1 of
        Inl e \<Rightarrow> Inl e
      | Inr x \<Rightarrow>
          if x = Some False then Inr (Some False)
          else (case eval_expr sub cl sc e2 of
                  Inl e \<Rightarrow> Inl e
                | Inr y \<Rightarrow> Inr (sql_and x y)))"
| "eval_expr sub cl sc (Or e1 e2) =
     (case eval_expr sub cl sc e1 of
        Inl e \<Rightarrow> Inl e
      | Inr x \<Rightarrow>
          if x = Some True then Inr (Some True)
          else (case eval_expr sub cl sc e2 of
                  Inl e \<Rightarrow> Inl e
                | Inr y \<Rightarrow> Inr (sql_or x y)))"

text \<open>The tables the sub-selects of an expression read, at any depth.\<close>

fun sub_tables :: "expr \<Rightarrow> string list" where
  "sub_tables (InSub a c t w) = t # sub_tables w"
| "sub_tables (And e1 e2) = sub_tables e1 @ sub_tables e2"
| "sub_tables (Or e1 e2) = sub_tables e1 @ sub_tables e2"
| "sub_tables e = []"

text \<open>
  Name resolution. A qualified column must name a table in scope: the table of the
  policy, or the FROM table of a sub-select around it. A \<^verbatim>\<open>CREATE POLICY\<close> whose
  expression names another table is rejected by the database (missing FROM-clause
  entry), and the declaration creates no policy.
\<close>

fun operand_in_scope :: "string list \<Rightarrow> operand \<Rightarrow> bool" where
  "operand_in_scope ts (QCol t c) = (t \<in> set ts)"
| "operand_in_scope ts _ = True"

fun well_scoped :: "string list \<Rightarrow> expr \<Rightarrow> bool" where
  "well_scoped ts ETrue = True"
| "well_scoped ts (Eq a b) = (operand_in_scope ts a \<and> operand_in_scope ts b)"
| "well_scoped ts (InList a vs) = operand_in_scope ts a"
| "well_scoped ts (InSub a c t w) = (operand_in_scope ts a \<and> well_scoped (t # ts) w)"
| "well_scoped ts (And e1 e2) = (well_scoped ts e1 \<and> well_scoped ts e2)"
| "well_scoped ts (Or e1 e2) = (well_scoped ts e1 \<and> well_scoped ts e2)"

subsection \<open>Policies\<close>

datatype command = SELECT | INSERT | UPDATE | DELETE

datatype policy_for = FOR_ALL | FOR command

record policy =
  pname :: string
  ptable :: string
  pfor :: policy_for
  pusing :: expr
  pcheck :: "expr option"

text \<open>A policy declared \<^verbatim>\<open>FOR ALL\<close> applies to every command.\<close>

fun applies :: "policy_for \<Rightarrow> command \<Rightarrow> bool" where
  "applies FOR_ALL c = True"
| "applies (FOR c') c = (c' = c)"

text \<open>
  Rows that exist are tested with \<^verbatim>\<open>USING\<close>; a row to be inserted is tested with
  \<^verbatim>\<open>WITH CHECK\<close>, and with \<^verbatim>\<open>USING\<close> when the policy has no \<^verbatim>\<open>WITH CHECK\<close>.
\<close>

definition with_check :: "policy \<Rightarrow> expr" where
  "with_check p = (case pcheck p of Some e \<Rightarrow> e | None \<Rightarrow> pusing p)"

definition policy_expr :: "policy \<Rightarrow> command \<Rightarrow> expr" where
  "policy_expr p c = (if c = INSERT then with_check p else pusing p)"

text \<open>The declaration is accepted: its expressions name only tables in scope.\<close>

definition accepted :: "policy \<Rightarrow> bool" where
  "accepted p =
     (well_scoped [ptable p] (pusing p)
      \<and> (case pcheck p of None \<Rightarrow> True | Some e \<Rightarrow> well_scoped [ptable p] e))"

subsection \<open>The declarations\<close>

text \<open>
  The file declares its policies in three shapes: \<^verbatim>\<open>FOR ALL USING (e) WITH CHECK (e)\<close>
  with the same expression twice, \<^verbatim>\<open>FOR SELECT USING (e)\<close>, and once
  \<^verbatim>\<open>FOR UPDATE USING (e) WITH CHECK (e)\<close>.
\<close>

definition for_all :: "string \<Rightarrow> string \<Rightarrow> expr \<Rightarrow> policy" where
  "for_all n t e = \<lparr>pname = n, ptable = t, pfor = FOR_ALL, pusing = e, pcheck = Some e\<rparr>"

definition for_select :: "string \<Rightarrow> string \<Rightarrow> expr \<Rightarrow> policy" where
  "for_select n t e = \<lparr>pname = n, ptable = t, pfor = FOR SELECT, pusing = e, pcheck = None\<rparr>"

definition for_update :: "string \<Rightarrow> string \<Rightarrow> expr \<Rightarrow> policy" where
  "for_update n t e = \<lparr>pname = n, ptable = t, pfor = FOR UPDATE, pusing = e, pcheck = Some e\<rparr>"

text \<open>\<^verbatim>\<open>auth.get_jwt_role() = 'admin'\<close> and its like.\<close>

definition role_is :: "val \<Rightarrow> expr" where
  "role_is v = Eq (Call Jwt_role) (Lit v)"

text \<open>\<^verbatim>\<open>k IN (SELECT job_id FROM job_crew_assignments WHERE crew_member_id = auth.get_crew_member_id())\<close>\<close>

definition assigned_to_crew :: "string \<Rightarrow> expr" where
  "assigned_to_crew k = InSub (Col k) ''job_id'' ''job_crew_assignments''
     (Eq (Col ''crew_member_id'') (Call Jwt_crew_member_id))"

text \<open>\<^verbatim>\<open>k IN (SELECT id FROM jobs WHERE contact_id = auth.get_contact_id())\<close>\<close>

definition job_of_contact :: "string \<Rightarrow> expr" where
  "job_of_contact k = InSub (Col k) ''id'' ''jobs''
     (Eq (Col ''contact_id'') (Call Jwt_contact_id))"

text \<open>
  Section 4: core operational tables. In \<open>contacts_crew_read\<close> the sub-select reads
  \<^verbatim>\<open>FROM jobs\<close> and its WHERE clause compares columns of \<^verbatim>\<open>job_crew_assignments\<close>,
  a table that no FROM clause lists.
\<close>

definition contacts_crew_read :: policy where
  "contacts_crew_read =
     for_select ''contacts_crew_read'' ''contacts''
       (And (role_is ''crew'')
          (InSub (Col ''id'') ''contact_id'' ''jobs''
             (And (Eq (QCol ''job_crew_assignments'' ''job_id'') (QCol ''jobs'' ''id''))
                  (Eq (QCol ''job_crew_assignments'' ''crew_member_id'')
                      (Call Jwt_crew_member_id)))))"

definition contacts_policies :: "policy list" where
  "contacts_policies =
    [for_all ''contacts_admin_all'' ''contacts'' (role_is ''admin''),
     contacts_crew_read,
     for_select ''contacts_client_own'' ''contacts''
       (And (role_is ''client'') (Eq (Col ''id'') (Call Jwt_contact_id)))]"

definition jobs_admin_all :: policy where
  "jobs_admin_all = for_all ''jobs_admin_all'' ''jobs'' (role_is ''admin'')"

definition jobs_crew_read :: policy where
  "jobs_crew_read =
     for_select ''jobs_crew_read'' ''jobs'' (And (role_is ''crew'') (assigned_to_crew ''id''))"

definition jobs_client_own :: policy where
  "jobs_client_own =
     for_select ''jobs_client_own'' ''jobs''
       (And (role_is ''client'') (Eq (Col ''contact_id'') (Call Jwt_contact_id)))"

definition jobs_policies :: "policy list" where
  "jobs_policies =
    [jobs_admin_all,
     jobs_crew_read,
     for_update ''jobs_crew_update'' ''jobs'' (And (role_is ''crew'') (assigned_to_crew ''id'')),
     jobs_client_own]"

definition job_locations_policies :: "policy list" where
  "job_locations_policies =
    [for_all ''job_locations_admin_all'' ''job_locations'' (role_is ''admin''),
     for_all ''job_locations_crew_access'' ''job_locations''
       (And (role_is ''crew'') (assigned_to_crew ''job_id'')),
     for_select ''job_locations_client_own'' ''job_locations''
       (And (role_is ''client'') (job_of_contact ''job_id''))]"

definition job_crew_assignments_policies :: "policy list" where
  "job_crew_assignments_policies =
    [for_all ''job_crew_assignments_admin_all'' ''job_crew_assignments'' (role_is ''admin''),
     for_select ''job_crew_assignments_crew_own'' ''job_crew_assignments''
       (And (role_is ''crew'') (Eq (Col ''crew_member_id'') (Call Jwt_crew_member_id))),
     for_select ''job_crew_assignments_client_read'' ''job_crew_assignments''
       (And (role_is ''client'') (job_of_contact ''job_id''))]"

definition job_services_policies :: "policy list" where
  "job_services_policies =
    [for_all ''job_services_admin_all'' ''job_services'' (role_is ''admin''),
     for_all ''job_services_crew_access'' ''job_services''
       (And (role_is ''crew'') (assigned_to_crew ''job_id'')),
     for_select ''job_services_client_own'' ''job_services''
       (And (role_is ''client'') (job_of_contact ''job_id''))]"

definition job_addons_policies :: "policy list" where
  "job_addons_policies =
    [for_all ''job_addons_admin_all'' ''job_addons'' (role_is ''admin''),
     for_all ''job_addons_crew_access'' ''job_addons''
       (And (role_is ''crew'') (assigned_to_crew ''job_id'')),
     for_select ''job_addons_client_own'' ''job_addons''
       (And (role_is ''client'') (job_of_contact ''job_id''))]"

definition job_notes_policies :: "policy list" where
  "job_notes_policies =
    [for_all ''job_notes_admin_all'' ''job_notes'' (role_is ''admin''),
     for_all ''job_notes_crew_access'' ''job_notes''
       (And (role_is ''crew'') (assigned_to_crew ''job_id'')),
     for_select ''job_notes_client_own'' ''job_notes''
       (And (role_is ''client'') (job_of_contact ''job_id''))]"

text \<open>Section 5: financial tables.\<close>

definition invoices_client_own :: policy where
  "invoices_client_own =
     for_select ''invoices_client_own'' ''invoices''
       (And (role_is ''client'') (job_of_contact ''job_id''))"

definition invoices_policies :: "policy list" where
  "invoices_policies =
    [for_all ''invoices_admin_all'' ''invoices'' (role_is ''admin''),
     invoices_client_own]"

definition payments_policies :: "policy list" where
  "payments_policies =
    [for_all ''payments_admin_all'' ''payments'' (role_is ''admin''),
     for_select ''payments_client_own'' ''payments''
       (And (role_is ''client'')
          (InSub (Col ''invoice_id'') ''id'' ''invoices'' (job_of_contact ''job_id'')))]"

definition payment_methods_policies :: "policy list" where
  "payment_methods_policies =
    [for_all ''payment_methods_admin_all'' ''payment_methods'' (role_is ''admin'')]"

definition revenue_daily_policies :: "policy list" where
  "revenue_daily_policies =
    [for_all ''revenue_daily_admin_all'' ''revenue_daily'' (role_is ''admin'')]"

definition quotes_policies :: "policy list" where
  "quotes_policies =
    [for_all ''quotes_admin_all'' ''quotes'' (role_is ''admin''),
     for_select ''quotes_client_own'' ''quotes''
       (And (role_is ''client'') (Eq (Col ''contact_id'') (Call Jwt_contact_id)))]"

definition quote_services_policies :: "policy list" where
  "quote_services_policies =
    [for_all ''quote_services_admin_all'' ''quote_services'' (role_is ''admin''),
     for_select ''quote_services_client_own'' ''quote_services''
       (And (role_is ''client'')
          (InSub (Col ''quote_id'') ''id'' ''quotes''
             (Eq (Col ''contact_id'') (Call Jwt_contact_id))))]"

text \<open>Section 6: crew management tables.\<close>

definition crew_members_policies :: "policy list" where
  "crew_members_policies =
    [for_all ''crew_members_admin_all'' ''crew_members'' (role_is ''admin''),
     for_select ''crew_members_crew_own'' ''crew_members''
       (And (role_is ''crew'') (Eq (Col ''id'') (Call Jwt_crew_member_id)))]"

definition crew_schedules_policies :: "policy list" where
  "crew_schedules_policies =
    [for_all ''crew_schedules_admin_all'' ''crew_schedules'' (role_is ''admin''),
     for_all ''crew_schedules_crew_own'' ''crew_schedules''
       (And (role_is ''crew'') (Eq (Col ''crew_member_id'') (Call Jwt_crew_member_id)))]"

definition crew_availability_policies :: "policy list" where
  "crew_availability_policies =
    [for_all ''crew_availability_admin_all'' ''crew_availability'' (role_is ''admin''),
     for_all ''crew_availability_crew_own'' ''crew_availability''
       (And (role_is ''crew'') (Eq (Col ''crew_member_id'') (Call Jwt_crew_member_id)))]"

definition crews_policies :: "policy list" where
  "crews_policies = [for_all ''crews_admin_all'' ''crews'' (role_is ''admin'')]"

text \<open>Section 7: communication tables.\<close>

definition conversations_participant :: expr where
  "conversations_participant =
     Or (And (role_is ''crew'')
           (Or (Eq (Col ''initiator_crew_id'') (Call Jwt_crew_member_id))
               (Eq (Col ''recipient_crew_id'') (Call Jwt_crew_member_id))))
        (And (role_is ''client'')
           (Or (Eq (Col ''initiator_contact_id'') (Call Jwt_contact_id))
               (Eq (Col ''recipient_contact_id'') (Call Jwt_contact_id))))"

definition conversations_policies :: "policy list" where
  "conversations_policies =
    [for_all ''conversations_admin_all'' ''conversations'' (role_is ''admin''),
     for_all ''conversations_participant_access'' ''conversations'' conversations_participant]"

text \<open>\<^verbatim>\<open>conversation_id IN (SELECT id FROM conversations)\<close>: the sub-select has no WHERE clause.\<close>

definition messages_participant_access :: policy where
  "messages_participant_access =
     for_all ''messages_participant_access'' ''messages''
       (InSub (Col ''conversation_id'') ''id'' ''conversations'' ETrue)"

definition messages_policies :: "policy list" where
  "messages_policies =
    [for_all ''messages_admin_all'' ''messages'' (role_is ''admin''),
     messages_participant_access]"

definition notifications_admin_read :: policy where
  "notifications_admin_read =
     for_select ''notifications_admin_read'' ''notifications'' (role_is ''admin'')"

definition notifications_policies :: "policy list" where
  "notifications_policies =
    [notifications_admin_read,
     for_all ''notifications_crew_own'' ''notifications''
       (And (role_is ''crew'') (Eq (Col ''crew_member_id'') (Call Jwt_crew_member_id))),
     for_all ''notifications_client_own'' ''notifications''
       (And (role_is ''client'') (Eq (Col ''contact_id'') (Call Jwt_contact_id)))]"

text \<open>Section 8: system tables.\<close>

definition events_policies :: "policy list" where
  "events_policies = [for_all ''events_admin_only'' ''events'' (role_is ''admin'')]"

definition cron_health_policies :: "policy list" where
  "cron_health_policies = [for_all ''cron_health_admin_only'' ''cron_health'' (role_is ''admin'')]"

text \<open>Section 9: auth and user tables.\<close>

definition auth_tokens_policies :: "policy list" where
  "auth_tokens_policies =
    [for_select ''auth_tokens_admin_read'' ''auth_tokens'' (role_is ''admin''),
     for_all ''auth_tokens_crew_own'' ''auth_tokens''
       (And (role_is ''crew'') (Eq (Col ''crew_member_id'') (Call Jwt_crew_member_id)))]"

definition client_auth_tokens_policies :: "policy list" where
  "client_auth_tokens_policies =
    [for_select ''client_auth_tokens_admin_read'' ''client_auth_tokens'' (role_is ''admin''),
     for_all ''client_auth_tokens_client_own'' ''client_auth_tokens''
       (And (role_is ''client'') (Eq (Col ''contact_id'') (Call Jwt_contact_id)))]"

definition ai_profiles_policies :: "policy list" where
  "ai_profiles_policies =
    [for_all ''ai_profiles_admin_all'' ''ai_profiles'' (role_is ''admin''),
     for_select ''ai_profiles_crew_own'' ''ai_profiles''
       (And (role_is ''crew'') (Eq (Col ''crew_member_id'') (Call Jwt_crew_member_id)))]"

definition settings_policies :: "policy list" where
  "settings_policies = [for_all ''settings_admin_only'' ''settings'' (role_is ''admin'')]"

text \<open>Section 10: public-facing tables. A boolean column holds \<open>''true''\<close> or \<open>''false''\<close>.\<close>

definition services_policies :: "policy list" where
  "services_policies =
    [for_all ''services_admin_all'' ''services'' (role_is ''admin''),
     for_select ''services_public_read'' ''services''
       (Or (Eq (Col ''is_active'') (Lit ''true'')) (role_is ''admin''))]"

definition service_areas_policies :: "policy list" where
  "service_areas_policies =
    [for_all ''service_areas_admin_all'' ''service_areas'' (role_is ''admin''),
     for_select ''service_areas_public_read'' ''service_areas''
       (Or (Eq (Col ''is_active'') (Lit ''true'')) (role_is ''admin''))]"

definition testimonials_policies :: "policy list" where
  "testimonials_policies =
    [for_all ''testimonials_admin_all'' ''testimonials'' (role_is ''admin''),
     for_select ''testimonials_public_read'' ''testimonials''
       (Or (Eq (Col ''is_approved'') (Lit ''true'')) (role_is ''admin''))]"

text \<open>Section 11: content management tables.\<close>

definition watchlists_policies :: "policy list" where
  "watchlists_policies = [for_all ''watchlists_admin_only'' ''watchlists'' (role_is ''admin'')]"

definition videos_policies :: "policy list" where
  "videos_policies = [for_all ''videos_admin_only'' ''videos'' (role_is ''admin'')]"

definition scripts_policies :: "policy list" where
  "scripts_policies = [for_all ''scripts_admin_only'' ''scripts'' (role_is ''admin'')]"

definition content_projects_policies :: "policy list" where
  "content_projects_policies =
    [for_all ''content_projects_admin_only'' ''content_projects'' (role_is ''admin'')]"

definition assets_policies :: "policy list" where
  "assets_policies = [for_all ''assets_admin_only'' ''assets'' (role_is ''admin'')]"

definition versions_policies :: "policy list" where
  "versions_policies = [for_all ''versions_admin_only'' ''versions'' (role_is ''admin'')]"

definition comments_policies :: "policy list" where
  "comments_policies = [for_all ''comments_admin_only'' ''comments'' (role_is ''admin'')]"

definition approvals_policies :: "policy list" where
  "approvals_policies = [for_all ''approvals_admin_only'' ''approvals'' (role_is ''admin'')]"

definition activity_log_policies :: "policy list" where
  "activity_log_policies =
    [for_all ''activity_log_admin_all'' ''activity_log'' (role_is ''admin''),
     for_select ''activity_log_own_read'' ''activity_log''
       (Or (And (role_is ''crew'') (Eq (Col ''user_id'') (Call Jwt_crew_member_id)))
           (And (role_is ''client'') (Eq (Col ''user_id'') (Call Jwt_contact_id))))]"

text \<open>Section 12: billing and organization tables.\<close>

definition orgs_policies :: "policy list" where
  "orgs_policies =
    [for_all ''orgs_admin_all'' ''orgs'' (role_is ''admin''),
     for_select ''orgs_member_read'' ''orgs'' (InList (Call Jwt_role) [''crew'', ''client''])]"

definition org_plan_subscriptions_policies :: "policy list" where
  "org_plan_subscriptions_policies =
    [for_all ''org_plan_subscriptions_admin_only'' ''org_plan_subscriptions'' (role_is ''admin'')]"

definition plan_limits_policies :: "policy list" where
  "plan_limits_policies =
    [for_all ''plan_limits_admin_all'' ''plan_limits'' (role_is ''admin''),
     for_select ''plan_limits_public_read'' ''plan_limits'' ETrue]"

definition usage_ledger_policies :: "policy list" where
  "usage_ledger_policies =
    [for_all ''usage_ledger_admin_only'' ''usage_ledger'' (role_is ''admin'')]"

subsection \<open>The policies of a table\<close>

text \<open>The declarations of the file, table by table, in the order of the file.\<close>

definition catalogue :: "(string \<times> policy list) list" where
  "catalogue =
     [(''contacts'', contacts_policies),
      (''jobs'', jobs_policies),
      (''job_locations'', job_locations_policies),
      (''job_crew_assignments'', job_crew_assignments_policies),
      (''job_services'', job_services_policies),
      (''job_addons'', job_addons_policies),
      (''job_notes'', job_notes_policies),
      (''invoices'', invoices_policies),
      (''payments'', payments_policies),
      (''payment_methods'', payment_methods_policies),
      (''revenue_daily'', revenue_daily_policies),
      (''quotes'', quotes_policies),
      (''quote_services'', quote_services_policies),
      (''crew_members'', crew_members_policies),
      (''crew_schedules'', crew_schedules_policies),
      (''crew_availability'', crew_availability_policies),
      (''crews'', crews_policies),
      (''conversations'', conversations_policies),
      (''messages'', messages_policies),
      (''notifications'', notifications_policies),
      (''events'', events_policies),
      (''cron_health'', cron_health_policies),
      (''auth_tokens'', auth_tokens_policies),
      (''client_auth_tokens'', client_auth_tokens_policies),
      (''ai_profiles'', ai_profiles_policies),
      (''settings'', settings_policies),
      (''services'', services_policies),
      (''service_areas'', service_areas_policies),
      (''testimonials'', testimonials_policies),
      (''watchlists'', watchlists_policies),
      (''videos'', videos_policies),
      (''scripts'', scripts_policies),
      (''content_projects'', content_projects_policies),
      (''assets'', assets_policies),
      (''versions'', versions_policies),
      (''comments'', comments_policies),
      (''approvals'', approvals_policies),
      (''activity_log'', activity_log_policies),
      (''orgs'', orgs_policies),
      (''org_plan_subscriptions'', org_plan_subscriptions_policies),
      (''plan_limits'', plan_limits_policies),
      (''usage_ledger'', usage_ledger_policies)]"

definition all_policies :: "policy list" where
  "all_policies = concat (map snd catalogue)"

definition table_names :: "string list" where
  "table_names = map fst catalogue"

definition policies_on :: "string \<Rightarrow> policy list" where
  "policies_on t = (case map_of catalogue t of Some ps \<Rightarrow> ps | None \<Rightarrow> [])"

text \<open>
  The policies a command on a table is tested against: the accepted declarations for
  that command or for all commands.
\<close>

definition applicable :: "string \<Rightarrow> command \<Rightarrow> policy list" where
  "applicable t c = filter (\<lambda>p. accepted p \<and> applies (pfor p) c) (policies_on t)"

definition using_quals :: "string \<Rightarrow> command \<Rightarrow> expr list" where
  "using_quals t c = map pusing (applicable t c)"

definition check_quals :: "string \<Rightarrow> command \<Rightarrow> expr list" where
  "check_quals t c = map with_check (applicable t c)"

text \<open>
  The policies of the file are all permissive: the expressions of the policies that
  apply are OR-combined, and with none that applies the row is refused. They are tried
  in order up to the first that is true.
\<close>

fun first_true :: "(expr \<Rightarrow> sql_error + bool option) \<Rightarrow> expr list \<Rightarrow> sql_error + bool" where
  "first_true f [] = Inr False"
| "first_true f (q # qs) =
     (case f q of
        Inl e \<Rightarrow> Inl e
      | Inr x \<Rightarrow> if x = Some True then Inr True else first_true f qs)"

subsection \<open>Rows read under row-level security\<close>

text \<open>
  A sub-select inside a policy is itself subject to the policies of the table it reads:
  it sees the rows the caller may SELECT. When a statement is prepared the database
  expands the policies of each table it reads, then the policies of the tables their
  sub-selects read, and so on, keeping the list of the tables under expansion whose
  policies have sub-selects; meeting one of them again raises
  \<^verbatim>\<open>infinite recursion detected in policy\<close>.
\<close>

definition select_subs :: "string \<Rightarrow> string list" where
  "select_subs t = concat (map sub_tables (using_quals t SELECT))"

text \<open>
  \<open>select_recursion active t\<close>: expanding the SELECT policies of \<open>t\<close>, with the tables
  \<open>active\<close> under expansion, meets a table again.
\<close>

function select_recursion :: "string list \<Rightarrow> string \<Rightarrow> bool" where
  "select_recursion active t =
     (if select_subs t = [] then False
      else if t \<in> set active then True
      else list_ex (\<lambda>t'. select_recursion (t # active) t') (select_subs t))"
  by pat_completeness auto
termination
proof (relation "measure (\<lambda>(active, t). card (set table_names - set active))", goal_cases)
  case 1
  show ?case by simp
next
  case (2 active t t')
  from 2(1) have "policies_on t \<noteq> []"
    by (auto simp add: select_subs_def using_quals_def applicable_def)
  then obtain ps where "map_of catalogue t = Some ps"
    by (auto simp add: policies_on_def split: option.splits)
  then have "t \<in> set table_names"
    by (force simp add: table_names_def dest: map_of_SomeD)
  with 2(2) have "set table_names - set (t # active) \<subset> set table_names - set active"
    by auto
  then have "card (set table_names - set (t # active)) < card (set table_names - set active)"
    by (intro psubset_card_mono) simp_all
  then show ?case by simp
qed

text \<open>
  \<open>rls_rows tb cl active t\<close>: the rows of \<open>t\<close> a sub-select of the caller with claims
  \<open>cl\<close> reads, the tables \<open>active\<close> being under expansion. Policies without a
  sub-select read no other table.
\<close>

function rls_rows :: "tables \<Rightarrow> claims \<Rightarrow> string list \<Rightarrow> string \<Rightarrow> sql_error + row list" where
  "rls_rows tb cl active t =
     (if select_subs t = []
      then keep_rows (\<lambda>r. first_true (eval_expr (\<lambda>t'. Inr []) cl [(t, r)]) (using_quals t SELECT))
             (tb t)
      else if t \<in> set active then Inl InfiniteRecursion
      else keep_rows
             (\<lambda>r. first_true (eval_expr (\<lambda>t'. rls_rows tb cl (t # active) t') cl [(t, r)])
                    (using_quals t SELECT))
             (tb t))"
  by pat_completeness auto
termination
proof (relation "measure (\<lambda>(tb, cl, active, t). card (set table_names - set active))",
    goal_cases)
  case 1
  show ?case by simp
next
  case (2 tb cl active t r t')
  from 2(1) have "policies_on t \<noteq> []"
    by (auto simp add: select_subs_def using_quals_def applicable_def)
  then obtain ps where "map_of catalogue t = Some ps"
    by (auto simp add: policies_on_def split: option.splits)
  then have "t \<in> set table_names"
    by (force simp add: table_names_def dest: map_of_SomeD)
  with 2(2) have "set table_names - set (t # active) \<subset> set table_names - set active"
    by auto
  then have "card (set table_names - set (t # active)) < card (set table_names - set active)"
    by (intro psubset_card_mono) simp_all
  then show ?case by simp
qed

text \<open>The rows of a table the caller may read.\<close>

definition visible :: "tables \<Rightarrow> claims \<Rightarrow> string \<Rightarrow> sql_error + row list" where
  "visible tb cl t = rls_rows tb cl [] t"

subsection \<open>A statement on a row\<close>

text \<open>
  One policy alone: it was accepted, it applies to the command, and its expression is
  true of the row.
\<close>

definition policy_passes :: "tables \<Rightarrow> claims \<Rightarrow> policy \<Rightarrow> command \<Rightarrow> row \<Rightarrow> bool" where
  "policy_passes tb cl p c r =
     (accepted p \<and> applies (pfor p) c
      \<and> eval_expr (\<lambda>t'. rls_rows tb cl [ptable p] t') cl [(ptable p, r)] (policy_expr p c)
          = Inr (Some True))"

text \<open>
  The tests of a statement, each a list of OR-combined expressions, all of which the row
  has to pass. A SELECT tests the \<^verbatim>\<open>USING\<close> expressions of the SELECT policies; an
  INSERT the \<^verbatim>\<open>WITH CHECK\<close> expressions of the INSERT policies; an UPDATE the
  \<^verbatim>\<open>USING\<close> expressions of the UPDATE policies on the row as it is and their
  \<^verbatim>\<open>WITH CHECK\<close> expressions on the row as it becomes; a DELETE the \<^verbatim>\<open>USING\<close>
  expressions of the DELETE policies. A statement that reads columns of the table, in
  a WHERE clause or a RETURNING list, needs SELECT rights too, and the expressions of
  the SELECT policies are added to each test (\<open>rd\<close>).
\<close>

definition statement_groups :: "string \<Rightarrow> command \<Rightarrow> bool \<Rightarrow> expr list list" where
  "statement_groups t c rd =
     (let sel = (if rd then [using_quals t SELECT] else [])
      in case c of
           SELECT \<Rightarrow> [using_quals t SELECT]
         | INSERT \<Rightarrow> [check_quals t INSERT] @ sel
         | UPDATE \<Rightarrow> [using_quals t UPDATE] @ sel @ [check_quals t UPDATE] @ sel
         | DELETE \<Rightarrow> [using_quals t DELETE] @ sel)"

definition statement_subs :: "string \<Rightarrow> command \<Rightarrow> bool \<Rightarrow> string list" where
  "statement_subs t c rd = concat (map sub_tables (concat (statement_groups t c rd)))"

text \<open>Preparing the statement raises the recursion error.\<close>

definition statement_recursion :: "string \<Rightarrow> command \<Rightarrow> bool \<Rightarrow> bool" where
  "statement_recursion t c rd = list_ex (select_recursion [t]) (statement_subs t c rd)"

fun all_groups :: "(expr \<Rightarrow> sql_error + bool option) \<Rightarrow> expr list list \<Rightarrow> sql_error + bool" where
  "all_groups f [] = Inr True"
| "all_groups f (g # gs) =
     (case first_true f g of
        Inl e \<Rightarrow> Inl e
      | Inr b \<Rightarrow> if b then all_groups f gs else Inr False)"

text \<open>
  The outcome of a statement of command \<open>c\<close> on row \<open>r\<close> of table \<open>t\<close>, for a caller with
  claims \<open>cl\<close> who is subject to row-level security: \<open>Inr True\<close> when the row passes,
  \<open>Inr False\<close> when it is refused (a row that exists is left out, a new row is rejected),
  \<open>Inl e\<close> when the statement aborts with error \<open>e\<close>. For an UPDATE the row is tested as
  it is and as it becomes; \<open>r\<close> stands for both, an update that leaves the tested columns
  as they are.
\<close>

definition rls_statement ::
  "tables \<Rightarrow> claims \<Rightarrow> string \<Rightarrow> command \<Rightarrow> bool \<Rightarrow> row \<Rightarrow> sql_error + bool" where
  "rls_statement tb cl t c rd r =
     (if statement_recursion t c rd then Inl InfiniteRecursion
      else all_groups (eval_expr (\<lambda>t'. rls_rows tb cl [t] t') cl [(t, r)])
             (statement_groups t c rd))"


subsection \<open>Policies that test the role\<close>



text \<open>The expressions of the accepted policies of a table.\<close>

definition table_quals :: "string \<Rightarrow> expr list" where
  "table_quals t = concat (map (\<lambda>p. [pusing p, with_check p]) (filter accepted (policies_on t)))"




subsection \<open>What the policies read\<close>

text \<open>The helper calls of an expression.\<close>

fun operand_calls :: "operand \<Rightarrow> jwt_fn list" where
  "operand_calls (Call f) = [f]"
| "operand_calls a = []"

fun expr_calls :: "expr \<Rightarrow> jwt_fn list" where
  "expr_calls ETrue = []"
| "expr_calls (Eq a b) = operand_calls a @ operand_calls b"
| "expr_calls (InList a vs) = operand_calls a"
| "expr_calls (InSub a c t w) = operand_calls a @ expr_calls w"
| "expr_calls (And e1 e2) = expr_calls e1 @ expr_calls e2"
| "expr_calls (Or e1 e2) = expr_calls e1 @ expr_calls e2"

text \<open>The helpers some policy calls, and the tables a sub-select of some policy reads.\<close>

definition called_helpers :: "jwt_fn list" where
  "called_helpers =
     concat (map (\<lambda>p. expr_calls (pusing p) @ expr_calls (with_check p)) all_policies)"

definition sub_selected_tables :: "string list" where
  "sub_selected_tables =
     concat (map (\<lambda>p. sub_tables (pusing p) @ sub_tables (with_check p)) all_policies)"

subsection \<open>The token payloads of docs/AUTH\_MATRIX.md\<close>

definition admin_jwt :: claims where
  "admin_jwt = map_of
     [(''admin_id'', ''550e8400-e29b-41d4-a716-446655440000''),
      (''contact_id'', ''550e8400-e29b-41d4-a716-446655440001''),
      (''business_id'', ''550e8400-e29b-41d4-a716-446655440002''),
      (''role'', ''admin''),
      (''iat'', ''1709107200''),
      (''exp'', ''1709712000'')]"

definition client_jwt :: claims where
  "client_jwt = map_of
     [(''client_profile_id'', ''550e8400-e29b-41d4-a716-446655440010''),
      (''contact_id'', ''550e8400-e29b-41d4-a716-446655440011''),
      (''business_id'', ''550e8400-e29b-41d4-a716-446655440002''),
      (''iat'', ''1709107200''),
      (''exp'', ''1709712000'')]"

definition crew_jwt :: claims where
  "crew_jwt = map_of
     [(''crew_member_id'', ''550e8400-e29b-41d4-a716-446655440020''),
      (''business_id'', ''550e8400-e29b-41d4-a716-446655440002''),
      (''role'', ''crew''),
      (''iat'', ''1709107200''),
      (''exp'', ''1709712000'')]"

subsection \<open>Example identifiers, principals and tables\<close>

text \<open>Identifiers of two crew members, a job, a contact, an invoice, a quote and two conversations.\<close>

definition uuid_M1 :: val where
  "uuid_M1 = ''11111111-1111-4111-8111-111111111111''"

definition uuid_M2 :: val where
  "uuid_M2 = ''22222222-2222-4222-8222-222222222222''"

definition uuid_J1 :: val where
  "uuid_J1 = ''aaaaaaaa-aaaa-4aaa-8aaa-aaaaaaaaaaaa''"

definition uuid_C1 :: val where
  "uuid_C1 = ''cccccccc-cccc-4ccc-8ccc-cccccccccccc''"

definition uuid_I1 :: val where
  "uuid_I1 = ''77777777-7777-4777-8777-777777777777''"

definition uuid_Q1 :: val where
  "uuid_Q1 = ''99999999-9999-4999-8999-999999999999''"

definition uuid_V1 :: val where
  "uuid_V1 = ''eeeeeeee-eeee-4eee-8eee-eeeeeeeeeeee''"

definition uuid_V2 :: val where
  "uuid_V2 = ''ffffffff-ffff-4fff-8fff-ffffffffffff''"

definition crew_M1 :: claims where
  "crew_M1 = map_of [(''role'', ''crew''), (''crew_member_id'', uuid_M1)]"

definition client_C1 :: claims where
  "client_C1 = map_of [(''role'', ''client''), (''contact_id'', uuid_C1)]"

text \<open>A client whose \<open>contact_id\<close> claim is not the text of a uuid.\<close>

definition client_bad_id :: claims where
  "client_bad_id = map_of [(''role'', ''client''), (''contact_id'', ''C1'')]"

text \<open>Job J1 of contact C1, crew member M1 assigned to it; invoice I1 of job J1.\<close>

definition assigned_tables :: tables where
  "assigned_tables = (\<lambda>t. [])
     (''jobs'' := [map_of [(''id'', uuid_J1), (''contact_id'', uuid_C1)]],
      ''job_crew_assignments'' := [map_of [(''job_id'', uuid_J1), (''crew_member_id'', uuid_M1)]])"

text \<open>The one assignment of job J1 is that of crew member M2.\<close>

definition other_assignment :: tables where
  "other_assignment = (\<lambda>t. [])(''job_crew_assignments'' :=
     [map_of [(''job_id'', uuid_J1), (''crew_member_id'', uuid_M2)]])"

definition invoice_I1 :: row where
  "invoice_I1 = map_of [(''id'', uuid_I1), (''job_id'', uuid_J1)]"

text \<open>Quote Q1 of contact C1, and a quote\_services row of that quote.\<close>

definition quote_tables :: tables where
  "quote_tables = (\<lambda>t. [])(''quotes'' := [map_of [(''id'', uuid_Q1), (''contact_id'', uuid_C1)]])"

definition quote_service_Q1 :: row where
  "quote_service_Q1 = map_of [(''quote_id'', uuid_Q1)]"

text \<open>The same tables with a settings row added, and the same client with an \<open>iat\<close> claim.\<close>

definition quote_tables_settings :: tables where
  "quote_tables_settings = quote_tables(''settings'' := [Map.empty])"

definition client_C1_iat :: claims where
  "client_C1_iat = client_C1(''iat'' \<mapsto> ''1709107200'')"


text \<open>
  The note \<^emph>\<open>RLS Column Mismatch Fixes\<close> of the repository records that
  \<open>invoices_client_own\<close> was created anew on the database, outside the SQL file, as
  \<^verbatim>\<open>USING (customer_id = public.get_contact_id())\<close>. The expression of the note:
\<close>

definition invoices_client_own_note :: expr where
  "invoices_client_own_note = Eq (Col ''customer_id'') (Call Jwt_contact_id)"


text \<open>
  The tables whose policies reach, through their sub-selects, the policies of jobs and
  job\_crew\_assignments, which sub-select each other (\<open>jobs_crew_read\<close> reads
  job\_crew\_assignments, \<open>job_crew_assignments_client_read\<close> reads jobs).
\<close>

definition cyclic_tables :: "string list" where
  "cyclic_tables =
     [''jobs'', ''job_locations'', ''job_crew_assignments'', ''job_services'',
      ''job_addons'', ''job_notes'', ''invoices'', ''payments'']"


section \<open>The decision engine of the specification\<close>

text \<open>
  The repository holds the policy declarations and leaves their evaluation to the
  database. The decision function with reason codes, the policy registry and the
  relationship resolver exist in the specification only; the definitions of this
  section follow its sections 3 and 4.
\<close>

text \<open>Modelled from the spec: the four roles of a Principal (section 3); the repository has no such type.\<close>

datatype Role = Admin | Crew | Client | Anon

text \<open>Modelled from the spec: the operations a Policy may allow (section 3).\<close>

datatype Operation = Create | Read | Update | Delete

text \<open>Modelled from the spec: the Principal, a role and a map of scoped identifiers (section 3).\<close>

record Principal =
  p_role :: Role
  p_claims :: "string \<rightharpoonup> val"

text \<open>Modelled from the spec: one hop of a join path, \<open>(sourceKey, targetEntity, targetKey)\<close> (section 4.3).\<close>

type_synonym hop = "string \<times> string \<times> string"

text \<open>Modelled from the spec: the predicate variants (section 3).\<close>

datatype Predicate =
    Always
  | FieldEquals string string
  | ExistsRelated "hop list" string string
  | PAnd Predicate Predicate
  | POr Predicate Predicate

text \<open>Modelled from the spec: the Policy record (section 3), with an id for the reason \<open>PolicyMatch\<close>.\<close>

record Policy =
  policy_id :: string
  entity :: string
  for_role :: Role
  operations :: "Operation list"
  predicate :: Predicate

text \<open>Modelled from the spec: the failures a lookup may report (sections 4.3, 5).\<close>

datatype resolution_error = StorageError | DeadlineExceeded

text \<open>
  Modelled from the spec: the lookup the data-access layer offers the resolver (section 6):
  the rows of an entity whose key column holds one of the given values, or a failure.
\<close>

type_synonym lookup = "tables \<Rightarrow> string \<Rightarrow> string \<Rightarrow> val list \<Rightarrow> resolution_error + row list"

text \<open>Modelled from the spec: the lookups performed, in order (the predicate trace of section 2).\<close>

type_synonym trace = "(string \<times> string \<times> val list) list"

text \<open>Modelled from the spec: a lookup that reads the tables and never fails.\<close>

definition store_lookup :: lookup where
  "store_lookup tb te tk ks =
     Inr (filter (\<lambda>r. case r tk of Some v \<Rightarrow> v \<in> set ks | None \<Rightarrow> False) (tb te))"

text \<open>
  Modelled from the spec: \<open>FieldEquals(f, k)\<close> is
  \<^verbatim>\<open>row[f] != null && principal.claims[k] != null && row[f] == principal.claims[k]\<close> (section 4.3).
\<close>

definition field_equals :: "Principal \<Rightarrow> row \<Rightarrow> string \<Rightarrow> string \<Rightarrow> bool" where
  "field_equals p r f k =
     (case (r f, p_claims p k) of (Some a, Some b) \<Rightarrow> a = b | _ \<Rightarrow> False)"

text \<open>
  Modelled from the spec: walking a join path, one lookup per hop, stopping with no rows
  as soon as a hop yields none (section 4.3).
\<close>

fun walk :: "lookup \<Rightarrow> tables \<Rightarrow> hop list \<Rightarrow> row list \<Rightarrow> trace
    \<Rightarrow> (resolution_error + row list) \<times> trace" where
  "walk lk tb [] rows tr = (Inr rows, tr)"
| "walk lk tb ((sk, te, tk) # hs) rows tr =
     (let ks = List.map_filter (\<lambda>r. r sk) rows; tr' = tr @ [(te, tk, ks)] in
      case lk tb te tk ks of
        Inl err \<Rightarrow> (Inl err, tr')
      | Inr rows' \<Rightarrow> if rows' = [] then (Inr [], tr') else walk lk tb hs rows' tr')"

text \<open>
  Modelled from the spec: \<open>resolve(predicate, principal, row)\<close> (section 4.3); \<open>And\<close> and
  \<open>Or\<close> evaluate left to right and stop early, a failed lookup is passed on.
\<close>

fun resolve :: "lookup \<Rightarrow> tables \<Rightarrow> Predicate \<Rightarrow> Principal \<Rightarrow> row \<Rightarrow> trace
    \<Rightarrow> (resolution_error + bool) \<times> trace" where
  "resolve lk tb Always p r tr = (Inr True, tr)"
| "resolve lk tb (FieldEquals f k) p r tr = (Inr (field_equals p r f k), tr)"
| "resolve lk tb (ExistsRelated path f k) p r tr =
     (case walk lk tb path [r] tr of
        (Inl err, tr') \<Rightarrow> (Inl err, tr')
      | (Inr rows, tr') \<Rightarrow> (Inr (list_ex (\<lambda>r'. field_equals p r' f k) rows), tr'))"
| "resolve lk tb (PAnd a b) p r tr =
     (case resolve lk tb a p r tr of
        (Inl err, tr') \<Rightarrow> (Inl err, tr')
      | (Inr False, tr') \<Rightarrow> (Inr False, tr')
      | (Inr True, tr') \<Rightarrow> resolve lk tb b p r tr')"
| "resolve lk tb (POr a b) p r tr =
     (case resolve lk tb a p r tr of
        (Inl err, tr') \<Rightarrow> (Inl err, tr')
      | (Inr True, tr') \<Rightarrow> (Inr True, tr')
      | (Inr False, tr') \<Rightarrow> resolve lk tb b p r tr')"

text \<open>
  Modelled from the spec: \<open>policiesFor(entity, role, operation)\<close> (section 4.2): the policies
  of the pair (entity, role), filtered by the operation, in registration order.
\<close>

definition policiesFor :: "Policy list \<Rightarrow> string \<Rightarrow> Role \<Rightarrow> Operation \<Rightarrow> Policy list" where
  "policiesFor reg e ro op =
     filter (\<lambda>pol. op \<in> set (operations pol))
       (filter (\<lambda>pol. entity pol = e \<and> for_role pol = ro) reg)"

text \<open>Modelled from the spec: verdicts and reason codes (sections 4.4, 7).\<close>

datatype Verdict = ALLOW | DENY

datatype Reason =
    AdminOverride
  | NoPolicy
  | PolicyMatch string
  | PredicateFailed
  | ResolutionError resolution_error

text \<open>Modelled from the spec: the Decision Record (section 3), without its timestamp.\<close>

record Decision =
  d_principal :: Principal
  d_entity :: string
  d_operation :: Operation
  d_rowKey :: "val option"
  verdict :: Verdict
  matchedPolicy :: "string option"
  reason :: Reason

text \<open>Modelled from the spec: an entry of the audit sink, a decision under a record id (section 6).\<close>

record audit_record =
  record_id :: nat
  decision :: Decision

text \<open>
  Modelled from the spec: what a call of \<open>decide\<close> can read or change: the registry
  snapshot, the stored rows and the audit sink.
\<close>

record world =
  registry :: "Policy list"
  store :: tables
  sink :: "audit_record list"

text \<open>
  Modelled from the spec: steps 3 to 5 of the algorithm of section 4.4: the predicates in
  registration order, the first true one allows, a failed lookup before a match denies
  with \<open>ResolutionError\<close>, otherwise \<open>PredicateFailed\<close>.
\<close>

fun first_match :: "lookup \<Rightarrow> tables \<Rightarrow> Policy list \<Rightarrow> Principal \<Rightarrow> row \<Rightarrow> trace
    \<Rightarrow> (Verdict \<times> string option \<times> Reason) \<times> trace" where
  "first_match lk tb [] p r tr = ((DENY, None, PredicateFailed), tr)"
| "first_match lk tb (pol # pols) p r tr =
     (case resolve lk tb (predicate pol) p r tr of
        (Inl err, tr') \<Rightarrow> ((DENY, None, ResolutionError err), tr')
      | (Inr True, tr') \<Rightarrow> ((ALLOW, Some (policy_id pol), PolicyMatch (policy_id pol)), tr')
      | (Inr False, tr') \<Rightarrow> first_match lk tb pols p r tr')"

text \<open>Modelled from the spec: steps 1 and 2 of the algorithm of section 4.4, then \<open>first_match\<close>.\<close>

definition evaluate :: "lookup \<Rightarrow> Policy list \<Rightarrow> tables \<Rightarrow> Principal \<Rightarrow> string \<Rightarrow> Operation \<Rightarrow> row
    \<Rightarrow> (Verdict \<times> string option \<times> Reason) \<times> trace" where
  "evaluate lk reg tb p e op r =
     (if p_role p = Admin \<and> list_ex (\<lambda>pol. predicate pol = Always) (policiesFor reg e Admin op)
      then ((ALLOW, None, AdminOverride), [])
      else let pols = policiesFor reg e (p_role p) op in
        if pols = [] then ((DENY, None, NoPolicy), [])
        else first_match lk tb pols p r [])"

text \<open>
  Modelled from the spec: \<open>decide(principal, entity, operation, row)\<close> (section 4.4): the
  decision, with the lookups it performed, and the world after the call, in which
  exactly one record has been appended to the audit sink.
\<close>

definition decide :: "lookup \<Rightarrow> world \<Rightarrow> Principal \<Rightarrow> string \<Rightarrow> Operation \<Rightarrow> row
    \<Rightarrow> (Decision \<times> trace) \<times> world" where
  "decide lk w p e op r =
     (let ((v, m, rs), tr) = evaluate lk (registry w) (store w) p e op r;
          d = \<lparr>d_principal = p, d_entity = e, d_operation = op, d_rowKey = r ''id'',
               verdict = v, matchedPolicy = m, reason = rs\<rparr>
      in ((d, tr), w\<lparr>sink := sink w @ [\<lparr>record_id = length (sink w), decision = d\<rparr>]\<rparr>))"

text \<open>
  Modelled from the spec: the registry entries for jobs and invoices. The repository has no
  registry; these are the six declarations of \<^verbatim>\<open>schema/RLS_HARDENING.sql\<close> on the
  two tables, in the Policy format of section 3: the role of the role test, the
  operations of the \<^verbatim>\<open>FOR\<close> clause, and the rest of the expression as a predicate.
\<close>

definition all_operations :: "Operation list" where
  "all_operations = [Create, Read, Update, Delete]"

definition acs_registry :: "Policy list" where
  "acs_registry =
    [\<lparr>policy_id = ''jobs_admin_all'', entity = ''jobs'', for_role = Admin,
      operations = all_operations, predicate = Always\<rparr>,
     \<lparr>policy_id = ''jobs_crew_read'', entity = ''jobs'', for_role = Crew,
      operations = [Read],
      predicate = ExistsRelated [(''id'', ''job_crew_assignments'', ''job_id'')]
                    ''crew_member_id'' ''crew_member_id''\<rparr>,
     \<lparr>policy_id = ''jobs_crew_update'', entity = ''jobs'', for_role = Crew,
      operations = [Update],
      predicate = ExistsRelated [(''id'', ''job_crew_assignments'', ''job_id'')]
                    ''crew_member_id'' ''crew_member_id''\<rparr>,
     \<lparr>policy_id = ''jobs_client_own'', entity = ''jobs'', for_role = Client,
      operations = [Read], predicate = FieldEquals ''contact_id'' ''contact_id''\<rparr>,
     \<lparr>policy_id = ''invoices_admin_all'', entity = ''invoices'', for_role = Admin,
      operations = all_operations, predicate = Always\<rparr>,
     \<lparr>policy_id = ''invoices_client_own'', entity = ''invoices'', for_role = Client,
      operations = [Read],
      predicate = ExistsRelated [(''job_id'', ''jobs'', ''id'')] ''contact_id'' ''contact_id''\<rparr>]"

subsection \<open>Example principals and worlds\<close>

definition admin_P :: Principal where
  "admin_P = \<lparr>p_role = Admin, p_claims = Map.empty\<rparr>"

definition crew_P1 :: Principal where
  "crew_P1 = \<lparr>p_role = Crew, p_claims = map_of [(''crew_member_id'', uuid_M1)]\<rparr>"

definition client_P1 :: Principal where
  "client_P1 = \<lparr>p_role = Client, p_claims = map_of [(''contact_id'', uuid_C1)]\<rparr>"

definition anon_P :: Principal where
  "anon_P = \<lparr>p_role = Anon, p_claims = Map.empty\<rparr>"

definition failing_lookup :: lookup where
  "failing_lookup tb te tk ks = Inl StorageError"

definition acs_world :: world where
  "acs_world = \<lparr>registry = acs_registry, store = (\<lambda>t. []), sink = []\<rparr>"

section \<open>Properties\<close>

declare select_recursion.simps [simp del] rls_rows.simps [simp del]

subsection \<open>The cast to uuid, the example principals and tables\<close>

lemma bytes16: "[0..<16] = [0, 1, 2, 3, 4, 5, 6, 7, 8, 9, 10, 11, 12, 13, 14, 15::nat]"
  by (simp add: upt_rec)

lemmas uuid_defs = uuid_in_def uuid_out_def is_hex_def lower_hex_def bytes16

lemma uuid_in_examples:
  "uuid_in uuid_M1 = Inr uuid_M1" "uuid_in uuid_M2 = Inr uuid_M2"
  "uuid_in uuid_C1 = Inr uuid_C1"
  "uuid_in ''C1'' = Inl (InvalidUuid ''C1'')"
  by (simp_all add: uuid_defs uuid_M1_def uuid_M2_def uuid_C1_def)

lemma example_uuids_differ:
  "uuid_M1 \<noteq> uuid_M2" "uuid_V1 \<noteq> uuid_V2" "uuid_M2 \<noteq> uuid_M1" "uuid_V2 \<noteq> uuid_V1"
  by (simp_all add: uuid_M1_def uuid_M2_def uuid_V1_def uuid_V2_def)

lemma role_facts:
  "get_jwt_role admin_jwt = Some ''admin''"
  "get_jwt_role crew_jwt = Some ''crew''"
  "get_jwt_role client_jwt = None"
  "get_jwt_role crew_M1 = Some ''crew''"
  "get_jwt_role client_C1 = Some ''client''"
  "get_jwt_role client_bad_id = Some ''client''"
  by (simp_all add: get_jwt_role_def admin_jwt_def crew_jwt_def client_jwt_def crew_M1_def
      client_C1_def client_bad_id_def)

lemma id_facts:
  "get_crew_member_id crew_M1 = Inr (Some uuid_M1)"
  "get_contact_id crew_M1 = Inr None"
  "get_contact_id client_C1 = Inr (Some uuid_C1)"
  "get_crew_member_id client_C1 = Inr None"
  "get_contact_id client_bad_id = Inl (InvalidUuid ''C1'')"
  by (simp_all add: get_crew_member_id_def get_contact_id_def crew_M1_def client_C1_def
      client_bad_id_def uuid_in_examples)

lemma assigned_rows:
  "assigned_tables ''jobs'' = [map_of [(''id'', uuid_J1), (''contact_id'', uuid_C1)]]"
  "assigned_tables ''job_crew_assignments''
     = [map_of [(''job_id'', uuid_J1), (''crew_member_id'', uuid_M1)]]"
  by (simp_all add: assigned_tables_def)

lemma other_assignment_rows:
  "other_assignment ''job_crew_assignments''
     = [map_of [(''job_id'', uuid_J1), (''crew_member_id'', uuid_M2)]]"
  by (simp add: other_assignment_def)

lemma quote_rows:
  "quote_tables ''quotes'' = [map_of [(''id'', uuid_Q1), (''contact_id'', uuid_C1)]]"
  by (simp add: quote_tables_def)


subsection \<open>The policies of each table\<close>

lemma on_table:
  "policies_on ''contacts'' = contacts_policies"
  "policies_on ''jobs'' = jobs_policies"
  "policies_on ''job_locations'' = job_locations_policies"
  "policies_on ''job_crew_assignments'' = job_crew_assignments_policies"
  "policies_on ''job_services'' = job_services_policies"
  "policies_on ''job_addons'' = job_addons_policies"
  "policies_on ''job_notes'' = job_notes_policies"
  "policies_on ''invoices'' = invoices_policies"
  "policies_on ''payments'' = payments_policies"
  "policies_on ''payment_methods'' = payment_methods_policies"
  "policies_on ''revenue_daily'' = revenue_daily_policies"
  "policies_on ''quotes'' = quotes_policies"
  "policies_on ''quote_services'' = quote_services_policies"
  "policies_on ''crew_members'' = crew_members_policies"
  "policies_on ''crew_schedules'' = crew_schedules_policies"
  "policies_on ''crew_availability'' = crew_availability_policies"
  "policies_on ''crews'' = crews_policies"
  "policies_on ''conversations'' = conversations_policies"
  "policies_on ''messages'' = messages_policies"
  "policies_on ''notifications'' = notifications_policies"
  "policies_on ''events'' = events_policies"
  "policies_on ''cron_health'' = cron_health_policies"
  "policies_on ''auth_tokens'' = auth_tokens_policies"
  "policies_on ''client_auth_tokens'' = client_auth_tokens_policies"
  "policies_on ''ai_profiles'' = ai_profiles_policies"
  "policies_on ''settings'' = settings_policies"
  "policies_on ''services'' = services_policies"
  "policies_on ''service_areas'' = service_areas_policies"
  "policies_on ''testimonials'' = testimonials_policies"
  "policies_on ''watchlists'' = watchlists_policies"
  "policies_on ''videos'' = videos_policies"
  "policies_on ''scripts'' = scripts_policies"
  "policies_on ''content_projects'' = content_projects_policies"
  "policies_on ''assets'' = assets_policies"
  "policies_on ''versions'' = versions_policies"
  "policies_on ''comments'' = comments_policies"
  "policies_on ''approvals'' = approvals_policies"
  "policies_on ''activity_log'' = activity_log_policies"
  "policies_on ''orgs'' = orgs_policies"
  "policies_on ''org_plan_subscriptions'' = org_plan_subscriptions_policies"
  "policies_on ''plan_limits'' = plan_limits_policies"
  "policies_on ''usage_ledger'' = usage_ledger_policies"
  by (simp_all add: policies_on_def catalogue_def)

lemma eval_role_is: "eval_expr sub cl sc (role_is v) = Inr (sql_eq (get_jwt_role cl) (Some v))"
  by (simp add: role_is_def)

lemma sub_tables_helpers:
  "sub_tables (role_is v) = []"
  "sub_tables (assigned_to_crew k) = [''job_crew_assignments'']"
  "sub_tables (job_of_contact k) = [''jobs'']"
  "sub_tables conversations_participant = []"
  by (simp_all add: role_is_def assigned_to_crew_def job_of_contact_def
      conversations_participant_def)

lemma well_scoped_helpers:
  "well_scoped ts (role_is v)"
  "well_scoped ts (assigned_to_crew k)"
  "well_scoped ts (job_of_contact k)"
  "well_scoped ts conversations_participant"
  by (simp_all add: role_is_def assigned_to_crew_def job_of_contact_def
      conversations_participant_def)

lemma policy_shapes:
  "accepted (for_all n t e) = well_scoped [t] e"
  "accepted (for_select n t e) = well_scoped [t] e"
  "accepted (for_update n t e) = well_scoped [t] e"
  "pfor (for_all n t e) = FOR_ALL" "pfor (for_select n t e) = FOR SELECT"
  "pfor (for_update n t e) = FOR UPDATE"
  "pusing (for_all n t e) = e" "pusing (for_select n t e) = e" "pusing (for_update n t e) = e"
  "with_check (for_all n t e) = e" "with_check (for_select n t e) = e"
  "with_check (for_update n t e) = e"
  "ptable (for_all n t e) = t" "ptable (for_select n t e) = t" "ptable (for_update n t e) = t"
  by (simp_all add: accepted_def with_check_def for_all_def for_select_def for_update_def)

lemmas quals_defs = using_quals_def check_quals_def applicable_def on_table policy_shapes
  well_scoped_helpers

lemmas table_defs =
  contacts_policies_def contacts_crew_read_def jobs_policies_def jobs_admin_all_def
  jobs_crew_read_def jobs_client_own_def job_locations_policies_def
  job_crew_assignments_policies_def job_services_policies_def job_addons_policies_def
  job_notes_policies_def invoices_policies_def invoices_client_own_def payments_policies_def
  payment_methods_policies_def revenue_daily_policies_def quotes_policies_def
  quote_services_policies_def crew_members_policies_def crew_schedules_policies_def
  crew_availability_policies_def crews_policies_def conversations_policies_def
  notifications_policies_def notifications_admin_read_def events_policies_def
  cron_health_policies_def auth_tokens_policies_def client_auth_tokens_policies_def
  ai_profiles_policies_def settings_policies_def watchlists_policies_def videos_policies_def
  scripts_policies_def content_projects_policies_def assets_policies_def
  versions_policies_def comments_policies_def approvals_policies_def
  activity_log_policies_def orgs_policies_def org_plan_subscriptions_policies_def
  usage_ledger_policies_def


text \<open>
Each declaration is listed under the table it is declared on.
\<close>

lemma catalogue_tables: "\<forall>(t, ps) \<in> set catalogue. \<forall>p \<in> set ps. ptable p = t"
  by (simp add: catalogue_def table_defs policy_shapes messages_policies_def
      messages_participant_access_def services_policies_def service_areas_policies_def
      testimonials_policies_def plan_limits_policies_def)

lemma jobs_quals:
  "using_quals ''jobs'' SELECT =
     [role_is ''admin'', And (role_is ''crew'') (assigned_to_crew ''id''),
      And (role_is ''client'') (Eq (Col ''contact_id'') (Call Jwt_contact_id))]"
  "using_quals ''jobs'' UPDATE =
     [role_is ''admin'', And (role_is ''crew'') (assigned_to_crew ''id'')]"
  "using_quals ''jobs'' DELETE = [role_is ''admin'']"
  "check_quals ''jobs'' INSERT = [role_is ''admin'']"
  "check_quals ''jobs'' UPDATE =
     [role_is ''admin'', And (role_is ''crew'') (assigned_to_crew ''id'')]"
  by (simp_all add: quals_defs jobs_policies_def jobs_admin_all_def jobs_crew_read_def
      jobs_client_own_def)

lemma contacts_quals_all:
  "using_quals ''contacts'' SELECT =
     [role_is ''admin'', And (role_is ''client'') (Eq (Col ''id'') (Call Jwt_contact_id))]"
  "using_quals ''contacts'' UPDATE = [role_is ''admin'']"
  "using_quals ''contacts'' DELETE = [role_is ''admin'']"
  "check_quals ''contacts'' INSERT = [role_is ''admin'']"
  "check_quals ''contacts'' UPDATE = [role_is ''admin'']"
  by (simp_all add: quals_defs contacts_policies_def contacts_crew_read_def)

lemma job_crew_assignments_quals:
  "using_quals ''job_crew_assignments'' SELECT =
     [role_is ''admin'',
      And (role_is ''crew'') (Eq (Col ''crew_member_id'') (Call Jwt_crew_member_id)),
      And (role_is ''client'') (job_of_contact ''job_id'')]"
  by (simp add: quals_defs job_crew_assignments_policies_def)

lemma invoices_quals:
  "using_quals ''invoices'' SELECT
     = [role_is ''admin'', And (role_is ''client'') (job_of_contact ''job_id'')]"
  "using_quals ''invoices'' UPDATE = [role_is ''admin'']"
  "using_quals ''invoices'' DELETE = [role_is ''admin'']"
  "check_quals ''invoices'' INSERT = [role_is ''admin'']"
  "check_quals ''invoices'' UPDATE = [role_is ''admin'']"
  by (simp_all add: quals_defs invoices_policies_def invoices_client_own_def)

lemma quotes_quals:
  "using_quals ''quotes'' SELECT =
     [role_is ''admin'', And (role_is ''client'') (Eq (Col ''contact_id'') (Call Jwt_contact_id))]"
  by (simp add: quals_defs quotes_policies_def)

lemma quote_services_quals:
  "using_quals ''quote_services'' SELECT =
     [role_is ''admin'',
      And (role_is ''client'')
        (InSub (Col ''quote_id'') ''id'' ''quotes''
           (Eq (Col ''contact_id'') (Call Jwt_contact_id)))]"
  by (simp add: quals_defs quote_services_policies_def)






lemma select_subs_values:
  "select_subs ''jobs'' = [''job_crew_assignments'']"
  "select_subs ''job_crew_assignments'' = [''jobs'']"
  "select_subs ''invoices'' = [''jobs'']"
  "select_subs ''conversations'' = []"
  "select_subs ''quotes'' = []"
  by (simp_all add: select_subs_def quals_defs sub_tables_helpers jobs_policies_def
      jobs_admin_all_def jobs_crew_read_def jobs_client_own_def
      job_crew_assignments_policies_def invoices_policies_def invoices_client_own_def
      conversations_policies_def quotes_policies_def)

lemma cyclic_select_subs:
  "select_subs ''job_locations'' = [''job_crew_assignments'', ''jobs'']"
  "select_subs ''job_services'' = [''job_crew_assignments'', ''jobs'']"
  "select_subs ''job_addons'' = [''job_crew_assignments'', ''jobs'']"
  "select_subs ''job_notes'' = [''job_crew_assignments'', ''jobs'']"
  "select_subs ''payments'' = [''invoices'', ''jobs'']"
  by (simp_all add: select_subs_def quals_defs table_defs sub_tables_helpers)

lemma quote_services_subs: "select_subs ''quote_services'' = [''quotes'']"
  by (simp add: select_subs_def quote_services_quals sub_tables_helpers)

subsection \<open>Evaluation of an expression\<close>


lemma keep_rows_Inr: "keep_rows (\<lambda>r. Inr (P r)) rows = Inr (filter P rows)"
  by (induction rows) auto

lemma keep_rows_error:
  "rows \<noteq> [] \<Longrightarrow> \<forall>r \<in> set rows. f r = Inl e \<Longrightarrow> keep_rows f rows = Inl e"
  by (cases rows) auto








lemma sql_in_True:
  "sql_in x (map (\<lambda>r'. r' c) rows) = Some True
     \<longleftrightarrow> (\<exists>v. x = Some v \<and> (\<exists>a \<in> set rows. a c = Some v))"
proof -
  have "sql_eq x y = Some True \<longleftrightarrow> (\<exists>v. x = Some v \<and> y = Some v)" for y
    by (cases x; cases y) auto
  then show ?thesis
    by (auto simp: sql_in_def list_ex_iff)
qed



subsection \<open>Statements\<close>




lemma quals_in_table:
  "set (using_quals t c) \<subseteq> set (table_quals t)" "set (check_quals t c) \<subseteq> set (table_quals t)"
  by (auto simp: using_quals_def check_quals_def applicable_def table_quals_def)

lemma groups_in_table: "g \<in> set (statement_groups t c rd) \<Longrightarrow> set g \<subseteq> set (table_quals t)"
  using quals_in_table [of t]
  by (cases c) (auto simp: statement_groups_def Let_def split: if_splits)






lemma statement_subs_SELECT: "statement_subs t SELECT rd = select_subs t"
  by (simp add: statement_subs_def statement_groups_def select_subs_def)

lemma no_subs_no_recursion: "statement_subs t c rd = [] \<Longrightarrow> \<not> statement_recursion t c rd"
  by (simp add: statement_recursion_def)

lemma rls_rows_flat: "select_subs t = [] \<Longrightarrow> rls_rows tb cl active t = visible tb cl t"
  by (simp add: visible_def rls_rows.simps [of tb cl active t] rls_rows.simps [of tb cl "[]" t])







lemma crew_contacts:
  assumes "get_jwt_role cl = Some ''crew''"
  shows "rls_statement tb cl ''contacts'' c rd r = Inr False"
proof -
  have "statement_subs ''contacts'' c rd = []"
    by (cases c) (simp_all add: statement_subs_def statement_groups_def contacts_quals_all
        sub_tables_helpers)
  then have "\<not> statement_recursion ''contacts'' c rd"
    by (rule no_subs_no_recursion)
  then show ?thesis
    using assms
    by (cases c) (simp_all add: rls_statement_def statement_groups_def contacts_quals_all
        eval_role_is)
qed

subsection \<open>The cycle between the policies of jobs and job\_crew\_assignments\<close>

text \<open>
  \<open>jobs_crew_read\<close> sub-selects job\_crew\_assignments and
  \<open>job_crew_assignments_client_read\<close> sub-selects jobs: expanding the SELECT policies of
  either table, or of invoices, meets a table again, whatever is under expansion.
\<close>

lemma cycle:
  "select_recursion active ''jobs''"
  "select_recursion active ''job_crew_assignments''"
  "select_recursion active ''invoices''"
proof -
  show j: "select_recursion active ''jobs''" for active
    by (simp add: select_recursion.simps [of active "''jobs''"]
        select_recursion.simps [of "''jobs'' # active" "''job_crew_assignments''"]
        select_recursion.simps [of "''job_crew_assignments'' # ''jobs'' # active" "''jobs''"]
        select_subs_values)
  show "select_recursion active ''job_crew_assignments''"
    using j by (simp add: select_recursion.simps [of active "''job_crew_assignments''"]
        select_subs_values)
  show "select_recursion active ''invoices''"
    using j by (simp add: select_recursion.simps [of active "''invoices''"] select_subs_values)
qed

lemma select_in_statement:
  "c = SELECT \<or> rd \<Longrightarrow> set (select_subs t) \<subseteq> set (statement_subs t c rd)"
  by (cases c) (auto simp: statement_subs_def statement_groups_def select_subs_def)

lemma aborts_if:
  assumes "t' \<in> set (statement_subs t c rd)" and "select_recursion [t] t'"
  shows "rls_statement tb cl t c rd r = Inl InfiniteRecursion"
  using assms by (auto simp: rls_statement_def statement_recursion_def list_ex_iff)

text \<open>
A SELECT on one of the tables of the cycle, and any statement on it that reads, aborts.
\<close>

lemma cyclic_aborts:
  assumes "t \<in> set cyclic_tables" and "c = SELECT \<or> rd"
  shows "rls_statement tb cl t c rd r = Inl InfiniteRecursion"
proof -
  from assms(1) have "''jobs'' \<in> set (select_subs t) \<or> ''job_crew_assignments'' \<in> set (select_subs t)"
    by (auto simp: cyclic_tables_def select_subs_values cyclic_select_subs)
  then obtain t' where "t' \<in> set (select_subs t)" "select_recursion [t] t'"
    using cycle by blast
  with assms(2) show ?thesis
    using select_in_statement [of c rd t] aborts_if by blast
qed

lemma jobs_update_aborts: "rls_statement tb cl ''jobs'' UPDATE rd r = Inl InfiniteRecursion"
proof (rule aborts_if)
  show "''job_crew_assignments'' \<in> set (statement_subs ''jobs'' UPDATE rd)"
    by (simp add: statement_subs_def statement_groups_def jobs_quals sub_tables_helpers)
  show "select_recursion [''jobs''] ''job_crew_assignments''"
    by (rule cycle)
qed

text \<open>
  A statement on jobs or invoices that does not read the table is tested against the
  admin policy alone.
\<close>

lemma jobs_blind:
  assumes "c = INSERT \<or> c = DELETE"
  shows "rls_statement tb cl ''jobs'' c False r = Inr (get_jwt_role cl = Some ''admin'')"
proof -
  have "statement_subs ''jobs'' c False = []"
    using assms
    by (cases c) (simp_all add: statement_subs_def statement_groups_def jobs_quals
        sub_tables_helpers)
  then have "\<not> statement_recursion ''jobs'' c False"
    by (rule no_subs_no_recursion)
  then show ?thesis
    using assms
    by (cases c; cases "get_jwt_role cl")
      (simp_all add: rls_statement_def statement_groups_def jobs_quals eval_role_is)
qed

lemma invoices_blind:
  assumes "c \<noteq> SELECT"
  shows "rls_statement tb cl ''invoices'' c False r
           = Inr (get_jwt_role cl = Some ''admin'')"
proof -
  have "statement_subs ''invoices'' c False = []"
    using assms
    by (cases c) (simp_all add: statement_subs_def statement_groups_def invoices_quals
        sub_tables_helpers)
  then have "\<not> statement_recursion ''invoices'' c False"
    by (rule no_subs_no_recursion)
  then show ?thesis
    using assms
    by (cases c; cases "get_jwt_role cl")
      (simp_all add: rls_statement_def statement_groups_def invoices_quals eval_role_is)
qed

subsection \<open>What an outcome depends on\<close>

lemma keep_rows_cong:
  "\<forall>r \<in> set rows. f r = g r \<Longrightarrow> keep_rows f rows = keep_rows g rows"
  by (induction rows) (auto split: sum.splits)

lemma first_true_cong:
  "\<forall>q \<in> set qs. f q = g q \<Longrightarrow> first_true f qs = first_true g qs"
  by (induction qs) (auto split: sum.splits)

lemma all_groups_cong:
  "\<forall>g \<in> set gs. \<forall>q \<in> set g. f q = f' q \<Longrightarrow> all_groups f gs = all_groups f' gs"
proof (induction gs)
  case Nil
  show ?case by simp
next
  case (Cons g gs)
  then have "first_true f g = first_true f' g"
    by (intro first_true_cong) simp
  with Cons show ?case by (simp split: sum.splits)
qed

lemma eval_operand_frame:
  "\<forall>f \<in> set (operand_calls a). call_jwt cl f = call_jwt cl' f
     \<Longrightarrow> eval_operand cl sc a = eval_operand cl' sc a"
  by (cases "(cl, sc, a)" rule: eval_operand.cases) auto

lemma eval_expr_frame:
  assumes "\<forall>t \<in> set (sub_tables e). sub t = sub' t"
    and "\<forall>f \<in> set (expr_calls e). call_jwt cl f = call_jwt cl' f"
  shows "eval_expr sub cl sc e = eval_expr sub' cl' sc e"
  using assms
proof (induction e arbitrary: sc)
  case ETrue
  show ?case by simp
next
  case (Eq a b)
  then show ?case
    using eval_operand_frame [of a cl cl' sc] eval_operand_frame [of b cl cl' sc]
    by (simp split: sum.splits)
next
  case (InList a vs)
  then show ?case
    using eval_operand_frame [of a cl cl' sc] by simp
next
  case (InSub a c t w)
  have w: "eval_expr sub cl sc' w = eval_expr sub' cl' sc' w" for sc'
    using InSub by simp
  have "eval_operand cl sc a = eval_operand cl' sc a" "sub t = sub' t"
    using InSub.prems eval_operand_frame [of a cl cl' sc] by simp_all
  then show ?case
    by (simp add: w split: sum.splits)
next
  case (And e1 e2)
  then show ?case by (simp split: sum.splits)
next
  case (Or e1 e2)
  then show ?case by (simp split: sum.splits)
qed

lemma policy_of_table:
  assumes "p \<in> set (policies_on t)"
  shows "p \<in> set all_policies"
proof -
  from assms obtain ps where "map_of catalogue t = Some ps" "p \<in> set ps"
    by (cases "map_of catalogue t") (auto simp: policies_on_def)
  then have "(t, ps) \<in> set catalogue"
    by (auto dest: map_of_SomeD)
  with \<open>p \<in> set ps\<close> show ?thesis
    by (force simp: all_policies_def)
qed

lemma table_quals_frame:
  assumes "q \<in> set (table_quals t)"
  shows "set (sub_tables q) \<subseteq> set sub_selected_tables"
    and "set (expr_calls q) \<subseteq> set called_helpers"
proof -
  from assms obtain p where p: "p \<in> set (policies_on t)" "q = pusing p \<or> q = with_check p"
    by (auto simp: table_quals_def)
  then have "p \<in> set all_policies"
    using policy_of_table by blast
  with p(2) show "set (sub_tables q) \<subseteq> set sub_selected_tables"
    and "set (expr_calls q) \<subseteq> set called_helpers"
    by (auto simp: sub_selected_tables_def called_helpers_def)
qed

lemma rls_rows_frame:
  assumes "\<forall>t' \<in> set sub_selected_tables. tb t' = tb' t'"
    and "\<forall>f \<in> set called_helpers. call_jwt cl f = call_jwt cl' f"
    and "tb t = tb' t"
  shows "rls_rows tb cl active t = rls_rows tb' cl' active t"
  using assms
proof (induction tb cl active t rule: rls_rows.induct)
  case (1 tb cl active t)
  have q: "set (sub_tables q) \<subseteq> set sub_selected_tables \<and> set (expr_calls q) \<subseteq> set called_helpers"
    if "q \<in> set (using_quals t SELECT)" for q
    using that quals_in_table(1) [of t SELECT] table_quals_frame [of q t] by blast
  show ?case
  proof (cases "select_subs t = []")
    case True
    have "eval_expr (\<lambda>t'. Inr []) cl [(t, r)] q = eval_expr (\<lambda>t'. Inr []) cl' [(t, r)] q"
      if "q \<in> set (using_quals t SELECT)" for r q
      using q [OF that] 1(3) by (intro eval_expr_frame) auto
    then have "first_true (eval_expr (\<lambda>t'. Inr []) cl [(t, r)]) (using_quals t SELECT)
                 = first_true (eval_expr (\<lambda>t'. Inr []) cl' [(t, r)]) (using_quals t SELECT)" for r
      by (intro first_true_cong) simp
    with True 1(4) show ?thesis
      by (simp add: rls_rows.simps [of _ _ active t])
  next
    case False
    show ?thesis
    proof (cases "t \<in> set active")
      case True
      with False show ?thesis
        by (simp add: rls_rows.simps [of _ _ active t])
    next
      case inactive: False
      have "eval_expr (\<lambda>t'. rls_rows tb cl (t # active) t') cl [(t, r)] q
              = eval_expr (\<lambda>t'. rls_rows tb' cl' (t # active) t') cl' [(t, r)] q"
        if "q \<in> set (using_quals t SELECT)" for r q
      proof (rule eval_expr_frame)
        show "\<forall>t' \<in> set (sub_tables q).
                rls_rows tb cl (t # active) t' = rls_rows tb' cl' (t # active) t'"
        proof
          fix t'
          assume "t' \<in> set (sub_tables q)"
          then have "t' \<in> set sub_selected_tables"
            using q [OF that] by blast
          then have "tb t' = tb' t'"
            using 1(2) by simp
          then show "rls_rows tb cl (t # active) t' = rls_rows tb' cl' (t # active) t'"
            using 1(1) [OF False inactive 1(2) 1(3)] by simp
        qed
        show "\<forall>f \<in> set (expr_calls q). call_jwt cl f = call_jwt cl' f"
          using q [OF that] 1(3) by blast
      qed
      then have "first_true (eval_expr (\<lambda>t'. rls_rows tb cl (t # active) t') cl [(t, r)])
                   (using_quals t SELECT)
                 = first_true (eval_expr (\<lambda>t'. rls_rows tb' cl' (t # active) t') cl' [(t, r)])
                   (using_quals t SELECT)" for r
        by (intro first_true_cong) simp
      with False inactive 1(4) show ?thesis
        by (simp add: rls_rows.simps [of _ _ active t])
    qed
  qed
qed

lemma statement_frame:
  assumes "\<forall>t' \<in> set sub_selected_tables. tb t' = tb' t'"
    and "\<forall>f \<in> set called_helpers. call_jwt cl f = call_jwt cl' f"
  shows "rls_statement tb cl t c rd r = rls_statement tb' cl' t c rd r"
proof -
  have "eval_expr (\<lambda>t'. rls_rows tb cl [t] t') cl [(t, r)] q
          = eval_expr (\<lambda>t'. rls_rows tb' cl' [t] t') cl' [(t, r)] q"
    if "g \<in> set (statement_groups t c rd)" "q \<in> set g" for g q
  proof -
    from that have "q \<in> set (table_quals t)"
      using groups_in_table by blast
    then have s: "set (sub_tables q) \<subseteq> set sub_selected_tables"
      and h: "set (expr_calls q) \<subseteq> set called_helpers"
      by (rule table_quals_frame)+
    show ?thesis
    proof (rule eval_expr_frame)
      show "\<forall>t' \<in> set (sub_tables q). rls_rows tb cl [t] t' = rls_rows tb' cl' [t] t'"
        using s assms by (auto intro!: rls_rows_frame)
      show "\<forall>f \<in> set (expr_calls q). call_jwt cl f = call_jwt cl' f"
        using h assms(2) by blast
    qed
  qed
  then have "all_groups (eval_expr (\<lambda>t'. rls_rows tb cl [t] t') cl [(t, r)])
               (statement_groups t c rd)
             = all_groups (eval_expr (\<lambda>t'. rls_rows tb' cl' [t] t') cl' [(t, r)])
               (statement_groups t c rd)"
    by (intro all_groups_cong) blast
  then show ?thesis
    by (simp add: rls_statement_def)
qed

lemma what_is_read:
  "set sub_selected_tables
     = {''jobs'', ''job_crew_assignments'', ''invoices'', ''quotes'', ''conversations''}"
  "set called_helpers = {Jwt_role, Jwt_crew_member_id, Jwt_contact_id}"
  by (auto simp: sub_selected_tables_def called_helpers_def all_policies_def catalogue_def
      table_defs policy_shapes sub_tables_helpers role_is_def assigned_to_crew_def
      job_of_contact_def conversations_participant_def messages_policies_def
      messages_participant_access_def services_policies_def service_areas_policies_def
      testimonials_policies_def plan_limits_policies_def)

subsection \<open>The decision engine\<close>

lemma decide_result:
  assumes "evaluate lk (registry w) (store w) p e op r = ((v, m, rs), tr)"
  shows "fst (decide lk w p e op r) =
           (\<lparr>d_principal = p, d_entity = e, d_operation = op, d_rowKey = r ''id'',
             verdict = v, matchedPolicy = m, reason = rs\<rparr>, tr)"
  using assms by (simp add: decide_def Let_def)

lemma evaluate_admin:
  assumes "p_role p = Admin"
    and "\<exists>pol \<in> set reg. entity pol = e \<and> for_role pol = Admin \<and> op \<in> set (operations pol)
           \<and> predicate pol = Always"
  shows "evaluate lk reg tb p e op r = ((ALLOW, None, AdminOverride), [])"
proof -
  from assms(2) have "list_ex (\<lambda>pol. predicate pol = Always) (policiesFor reg e Admin op)"
    by (auto simp: list_ex_iff policiesFor_def)
  with assms(1) show ?thesis
    by (simp add: evaluate_def)
qed

lemma verdict_decide:
  "verdict (fst (fst (decide lk w p e op r))) = fst (fst (evaluate lk (registry w) (store w) p e op r))"
  by (simp add: decide_def Let_def split: prod.splits)

lemma field_equals_iff:
  "field_equals p a f k \<longleftrightarrow> (\<exists>u. a f = Some u \<and> p_claims p k = Some u)"
  by (auto simp: field_equals_def split: option.splits)

lemma first_match_single:
  "fst (fst (first_match lk tb [pol] p r tr))
     = (if fst (resolve lk tb (predicate pol) p r tr) = Inr True then ALLOW
        else DENY)"
proof (cases "resolve lk tb (predicate pol) p r tr")
  case (Pair res tr')
  then show ?thesis
    by (cases res) auto
qed

lemma store_lookup_rows:
  "store_lookup tb te tk ks = Inr rows \<Longrightarrow>
     set rows = {a \<in> set (tb te). \<exists>v \<in> set ks. a tk = Some v}"
  by (auto simp: store_lookup_def split: option.splits)

lemma map_filter_keys: "set (List.map_filter (\<lambda>r. r sk) rows) = {v. \<exists>r \<in> set rows. r sk = Some v}"
proof -
  have "set (List.map_filter (\<lambda>r. r sk) rows) = {the (r sk) |r. r \<in> set rows \<and> r sk \<noteq> None}"
    by (auto simp: List.map_filter_def)
  also have "\<dots> = {v. \<exists>r \<in> set rows. r sk = Some v}"
    by force
  finally show ?thesis .
qed

lemma walk_store_one:
  "\<exists>rows. fst (walk store_lookup tb [(sk, te, tk)] [r] tr) = Inr rows
     \<and> set rows = {a \<in> set (tb te). \<exists>v. r sk = Some v \<and> a tk = Some v}"
proof -
  obtain rows where l: "store_lookup tb te tk (List.map_filter (\<lambda>r. r sk) [r]) = Inr rows"
    by (simp add: store_lookup_def)
  have s: "set rows = {a \<in> set (tb te). \<exists>v. r sk = Some v \<and> a tk = Some v}"
    using store_lookup_rows [OF l] unfolding map_filter_keys by auto
  show ?thesis
    using l s by (cases "rows = []") (auto simp: Let_def)
qed

lemma walk_store_two:
  "\<exists>rows. fst (walk store_lookup tb [(k1, t1, c1), (k2, t2, c2)] [r] tr) = Inr rows
     \<and> set rows = {b \<in> set (tb t2). \<exists>a \<in> set (tb t1). (\<exists>v. r k1 = Some v \<and> a c1 = Some v)
                       \<and> (\<exists>w. a k2 = Some w \<and> b c2 = Some w)}"
proof -
  obtain rows1 where l1: "store_lookup tb t1 c1 (List.map_filter (\<lambda>r. r k1) [r]) = Inr rows1"
    by (simp add: store_lookup_def)
  have s1: "set rows1 = {a \<in> set (tb t1). \<exists>v. r k1 = Some v \<and> a c1 = Some v}"
    using store_lookup_rows [OF l1] unfolding map_filter_keys by auto
  obtain rows2 where l2: "store_lookup tb t2 c2 (List.map_filter (\<lambda>r. r k2) rows1) = Inr rows2"
    by (simp add: store_lookup_def)
  have s2: "set rows2 = {b \<in> set (tb t2). \<exists>a \<in> set rows1. \<exists>w. a k2 = Some w \<and> b c2 = Some w}"
    using store_lookup_rows [OF l2] unfolding map_filter_keys by auto
  show ?thesis
  proof (cases "rows1 = []")
    case True
    with l1 s1 show ?thesis by (auto simp: Let_def)
  next
    case False
    show ?thesis
    proof (cases "rows2 = []")
      case True
      with False l1 l2 s1 s2 show ?thesis by (auto simp: Let_def)
    next
      case False
      with \<open>rows1 \<noteq> []\<close> l1 l2 s1 s2 show ?thesis by (auto simp: Let_def)
    qed
  qed
qed

lemma resolve_exists_related:
  assumes "fst (walk lk tb path [r] tr) = Inr rows"
  shows "fst (resolve lk tb (ExistsRelated path f k) p r tr)
           = Inr (\<exists>b \<in> set rows. field_equals p b f k)"
  using assms by (cases "walk lk tb path [r] tr") (simp add: list_ex_iff)

lemma resolve_two_hop:
  "fst (resolve store_lookup tb (ExistsRelated [(k1, t1, c1), (k2, t2, c2)] f k) p r tr)
     = Inr (\<exists>a \<in> set (tb t1). \<exists>b \<in> set (tb t2). (\<exists>v. r k1 = Some v \<and> a c1 = Some v)
              \<and> (\<exists>w. a k2 = Some w \<and> b c2 = Some w) \<and> field_equals p b f k)"
proof -
  obtain rows where w: "fst (walk store_lookup tb [(k1, t1, c1), (k2, t2, c2)] [r] tr) = Inr rows"
    and s: "set rows = {b \<in> set (tb t2). \<exists>a \<in> set (tb t1). (\<exists>v. r k1 = Some v \<and> a c1 = Some v)
                       \<and> (\<exists>w. a k2 = Some w \<and> b c2 = Some w)}"
    using walk_store_two by blast
  show ?thesis
    unfolding resolve_exists_related [OF w] s by blast
qed

lemma resolve_one_hop:
  "fst (resolve store_lookup tb (ExistsRelated [(k1, t1, c1)] f k) p r tr)
     = Inr (\<exists>a \<in> set (tb t1). (\<exists>v. r k1 = Some v \<and> a c1 = Some v) \<and> field_equals p a f k)"
proof -
  obtain rows where w: "fst (walk store_lookup tb [(k1, t1, c1)] [r] tr) = Inr rows"
    and s: "set rows = {a \<in> set (tb t1). \<exists>v. r k1 = Some v \<and> a c1 = Some v}"
    using walk_store_one by blast
  show ?thesis
    unfolding resolve_exists_related [OF w] s by blast
qed

subsection \<open>The claims\<close>

text \<open>
  C1. For a principal with role admin and an \<open>Always\<close> admin policy registered for
  (entity, operation), \<open>decide\<close> is to return ALLOW with reason \<open>AdminOverride\<close>
  whatever the row; the engine of the specification does so for jobs. The admin policy
  of jobs in the SQL file is \<open>jobs_admin_all\<close>, declared for all commands. On the
  database no caller, an admin included, gets that far: every SELECT and every UPDATE
  on jobs, and every statement on jobs that reads the table, aborts with
  \<^verbatim>\<open>infinite recursion detected in policy\<close>, because \<open>jobs_crew_read\<close> sub-selects
  job\_crew\_assignments, whose \<open>job_crew_assignments_client_read\<close> sub-selects jobs.
  So it is for the admin token of docs/AUTH\_MATRIX.md reading job J1.
\<close>

theorem admin_on_jobs_aborts:
  "(\<forall>tb cl rd r. rls_statement tb cl ''jobs'' SELECT rd r = Inl InfiniteRecursion)
   \<and> (\<forall>tb cl rd r. rls_statement tb cl ''jobs'' UPDATE rd r = Inl InfiniteRecursion)
   \<and> (\<forall>tb cl c r. rls_statement tb cl ''jobs'' c True r = Inl InfiniteRecursion)
   \<and> get_jwt_role admin_jwt = Some ''admin''
   \<and> rls_statement assigned_tables admin_jwt ''jobs'' SELECT True
        (map_of [(''id'', uuid_J1), (''contact_id'', uuid_C1)]) = Inl InfiniteRecursion
   \<and> (\<forall>lk op r. verdict (fst (fst (decide lk acs_world admin_P ''jobs'' op r))) = ALLOW
         \<and> reason (fst (fst (decide lk acs_world admin_P ''jobs'' op r))) = AdminOverride)"
proof -
  have m: "''jobs'' \<in> set cyclic_tables"
    by (simp add: cyclic_tables_def)
  have a: "rls_statement tb cl ''jobs'' SELECT rd r = Inl InfiniteRecursion" for tb cl rd r
    using m by (rule cyclic_aborts) simp
  have b: "rls_statement tb cl ''jobs'' c True r = Inl InfiniteRecursion" for tb cl c r
    using m by (rule cyclic_aborts) simp
  have "\<exists>pol \<in> set acs_registry. entity pol = ''jobs'' \<and> for_role pol = Admin
          \<and> op \<in> set (operations pol) \<and> predicate pol = Always" for op
    by (cases op) (simp_all add: acs_registry_def all_operations_def)
  then have "evaluate lk (registry acs_world) (store acs_world) admin_P ''jobs'' op r
               = ((ALLOW, None, AdminOverride), [])" for lk op r
    by (intro evaluate_admin) (simp_all add: admin_P_def acs_world_def)
  then have d: "verdict (fst (fst (decide lk acs_world admin_P ''jobs'' op r))) = ALLOW
         \<and> reason (fst (fst (decide lk acs_world admin_P ''jobs'' op r))) = AdminOverride"
    for lk op r
    by (simp add: decide_result)
  from a b d jobs_update_aborts role_facts(1) show ?thesis by blast
qed

lemma quotes_no_recursion: "\<not> statement_recursion ''quotes'' SELECT rd"
proof -
  have "statement_subs ''quotes'' SELECT rd = []"
    by (simp add: statement_subs_def statement_groups_def quotes_quals sub_tables_helpers)
  then show ?thesis
    by (rule no_subs_no_recursion)
qed

text \<open>
  C2, as stated: when the principal lacks the claim or the row lacks the field, the
  predicate is false and never raises an error. A direct-ownership predicate of the
  file is the comparison of a column with a claim helper, as
  \<^verbatim>\<open>contact_id = auth.get_contact_id()\<close> in \<open>jobs_client_own\<close>. For a row that lacks
  the column and a caller whose \<open>contact_id\<close> claim is the text \<open>C1\<close>, the helper's
  cast to uuid raises: the comparison, the expression of \<open>jobs_client_own\<close> and a
  SELECT on quotes all end in the error.
\<close>

theorem invalid_claim_counterexample:
  "(Map.empty :: row) ''contact_id'' = None
   \<and> get_jwt_role client_bad_id = Some ''client''
   \<and> call_jwt client_bad_id Jwt_contact_id = Inl (InvalidUuid ''C1'')
   \<and> eval_expr (\<lambda>t. Inr []) client_bad_id [(''jobs'', Map.empty)]
        (Eq (Col ''contact_id'') (Call Jwt_contact_id)) = Inl (InvalidUuid ''C1'')
   \<and> eval_expr (\<lambda>t. Inr []) client_bad_id [(''jobs'', Map.empty)] (pusing jobs_client_own)
        = Inl (InvalidUuid ''C1'')
   \<and> rls_statement (\<lambda>t. []) client_bad_id ''quotes'' SELECT True Map.empty
        = Inl (InvalidUuid ''C1'')"
  by (simp add: id_facts role_facts jobs_client_own_def policy_shapes eval_role_is
      rls_statement_def quotes_no_recursion statement_groups_def quotes_quals)

text \<open>
  C2, amended. When the claim helper returns without error, and it returns NULL or the
  row lacks the column, the comparison is NULL: it is not true, also when both sides
  are absent, and no conjunction built on it, under whatever first operand \<open>g\<close>, is
  true. The row \<open>r\<close> of table \<open>t\<close> is the innermost row in scope. A caller who lacks the
  claim is such a case: the helpers return NULL for an absent claim and do not raise.
  In the engine of the specification \<open>FieldEquals\<close> resolves to false, not to an error,
  and makes no lookup.
\<close>

theorem field_equals_absent:
  assumes "call_jwt cl f = Inr v" and "v = None \<or> r c = None"
  shows "eval_expr sub cl ((t, r) # sc) (Eq (Col c) (Call f)) = Inr None
       \<and> eval_expr sub cl ((t, r) # sc) (And g (Eq (Col c) (Call f))) \<noteq> Inr (Some True)
       \<and> (cl ''contact_id'' = None \<longrightarrow> call_jwt cl Jwt_contact_id = Inr None)
       \<and> (cl ''crew_member_id'' = None \<longrightarrow> call_jwt cl Jwt_crew_member_id = Inr None)
       \<and> (\<forall>p k lk tb tr. p_claims p k = None \<or> r c = None \<longrightarrow>
            resolve lk tb (FieldEquals c k) p r tr = (Inr False, tr))"
proof -
  have n: "sql_eq (r c) v = None"
    using assms(2) by (cases "r c") auto
  then have a: "eval_expr sub cl ((t, r) # sc) (Eq (Col c) (Call f)) = Inr None"
    using assms(1) by simp
  have "sql_and x None \<noteq> Some True" for x
    by (induction x "None :: bool option" rule: sql_and.induct) auto
  then have b: "eval_expr sub cl ((t, r) # sc) (And g (Eq (Col c) (Call f))) \<noteq> Inr (Some True)"
    using a by (auto split: sum.splits)
  have c: "cl ''contact_id'' = None \<longrightarrow> call_jwt cl Jwt_contact_id = Inr None"
    "cl ''crew_member_id'' = None \<longrightarrow> call_jwt cl Jwt_crew_member_id = Inr None"
    by (simp_all add: get_contact_id_def get_crew_member_id_def)
  have d: "resolve lk tb (FieldEquals c k) p r tr = (Inr False, tr)"
    if "p_claims p k = None \<or> r c = None" for p k lk tb tr
    using that by (auto simp: field_equals_iff)
  from a b c d show ?thesis by blast
qed

theorem field_equals_absent_witness:
  "call_jwt (map_of [(''role'', ''client'')]) Jwt_contact_id = Inr None
   \<and> (None = (None :: val option) \<or> map_of [(''contact_id'', uuid_C1)] ''contact_id'' = None)
   \<and> eval_expr (\<lambda>t. Inr []) (map_of [(''role'', ''client'')])
        [(''quotes'', map_of [(''contact_id'', uuid_C1)])]
        (And (role_is ''client'') (Eq (Col ''contact_id'') (Call Jwt_contact_id)))
       \<noteq> Inr (Some True)
   \<and> eval_expr (\<lambda>t. Inr []) (map_of [(''role'', ''client'')])
        [(''quotes'', map_of [(''contact_id'', uuid_C1)])]
        (Eq (Col ''contact_id'') (Call Jwt_contact_id)) = Inr None"
proof -
  have h: "call_jwt (map_of [(''role'', ''client'')]) Jwt_contact_id = Inr None"
    by (simp add: get_contact_id_def)
  show ?thesis
    using h field_equals_absent [OF h, of "map_of [(''contact_id'', uuid_C1)]" "''contact_id''"
        "\<lambda>t. Inr []" "''quotes''" "[]" "role_is ''client''"]
    by simp
qed

lemma anon_invoices:
  assumes "get_jwt_role cl = Some ''anon''"
  shows "rls_statement tb cl ''invoices'' c rd r
           = (if c = SELECT \<or> rd then Inl InfiniteRecursion else Inr False)"
proof (cases "c = SELECT \<or> rd")
  case True
  have "rls_statement tb cl ''invoices'' c rd r = Inl InfiniteRecursion"
    by (rule cyclic_aborts) (simp_all add: cyclic_tables_def True)
  with True show ?thesis by simp
next
  case False
  then show ?thesis
    using invoices_blind [of c tb cl r] assms by simp
qed

text \<open>
  C3. When the registry holds no policy for (entity, role, operation), \<open>decide\<close> returns
  DENY with reason \<open>NoPolicy\<close> and performs no lookup. In particular, with the
  declarations of the SQL file as registry, a principal with role anon is denied every
  operation on every invoices row with reason \<open>NoPolicy\<close>. Under the SQL policies
  themselves no statement of a caller with role anon on invoices is granted: one that
  does not read the table is refused, a SELECT and any statement that reads aborts
  with the recursion error.
\<close>

theorem no_policy_denies:
  assumes "policiesFor (registry w) e (p_role p) op = []"
  shows "verdict (fst (fst (decide lk w p e op r))) = DENY
       \<and> reason (fst (fst (decide lk w p e op r))) = NoPolicy
       \<and> snd (fst (decide lk w p e op r)) = []
       \<and> (\<forall>q tb s op' r'. p_role q = Anon \<longrightarrow>
            verdict (fst (fst (decide lk \<lparr>registry = acs_registry, store = tb, sink = s\<rparr>
                 q ''invoices'' op' r'))) = DENY
          \<and> reason (fst (fst (decide lk \<lparr>registry = acs_registry, store = tb, sink = s\<rparr>
                 q ''invoices'' op' r'))) = NoPolicy)
       \<and> (\<forall>cl tb c rd r'. get_jwt_role cl = Some ''anon'' \<longrightarrow>
            rls_statement tb cl ''invoices'' c rd r' \<noteq> Inr True
            \<and> rls_statement tb cl ''invoices'' c rd r'
                = (if c = SELECT \<or> rd then Inl InfiniteRecursion else Inr False))"
proof -
  have g: "evaluate lk reg tb p' e' op' r' = ((DENY, None, NoPolicy), [])"
    if "policiesFor reg e' (p_role p') op' = []" for reg tb p' e' op' r'
    using that by (auto simp: evaluate_def)
  have a: "verdict (fst (fst (decide lk w p e op r))) = DENY
       \<and> reason (fst (fst (decide lk w p e op r))) = NoPolicy
       \<and> snd (fst (decide lk w p e op r)) = []"
    using g [OF assms] by (simp add: decide_result)
  have n: "policiesFor acs_registry ''invoices'' Anon op' = []" for op'
    by (simp add: policiesFor_def acs_registry_def)
  have b: "verdict (fst (fst (decide lk \<lparr>registry = acs_registry, store = tb, sink = s\<rparr>
                 q ''invoices'' op' r'))) = DENY
         \<and> reason (fst (fst (decide lk \<lparr>registry = acs_registry, store = tb, sink = s\<rparr>
                 q ''invoices'' op' r'))) = NoPolicy"
    if "p_role q = Anon" for q tb s op' r'
    using g [of acs_registry "''invoices''" q op' tb r'] n that by (simp add: decide_result)
  have c: "rls_statement tb cl ''invoices'' c rd r' \<noteq> Inr True
            \<and> rls_statement tb cl ''invoices'' c rd r'
                = (if c = SELECT \<or> rd then Inl InfiniteRecursion else Inr False)"
    if "get_jwt_role cl = Some ''anon''" for cl tb c rd r'
    using anon_invoices [OF that] by simp
  from a b c show ?thesis by blast
qed

theorem no_policy_denies_witness:
  "policiesFor (registry acs_world) ''invoices'' (p_role anon_P) Read = []
   \<and> verdict (fst (fst (decide store_lookup acs_world anon_P ''invoices'' Read invoice_I1))) = DENY
   \<and> reason (fst (fst (decide store_lookup acs_world anon_P ''invoices'' Read invoice_I1)))
       = NoPolicy
   \<and> get_jwt_role (map_of [(''role'', ''anon'')]) = Some ''anon''
   \<and> rls_statement (\<lambda>t. []) (map_of [(''role'', ''anon'')]) ''invoices'' INSERT False invoice_I1
       = Inr False"
proof -
  have h: "policiesFor (registry acs_world) ''invoices'' (p_role anon_P) Read = []"
    by (simp add: policiesFor_def acs_world_def acs_registry_def anon_P_def)
  have k: "get_jwt_role (map_of [(''role'', ''anon'')]) = Some ''anon''"
    by (simp add: get_jwt_role_def)
  show ?thesis
    using h k no_policy_denies [OF h, of store_lookup invoice_I1] by simp
qed

text \<open>
  Scenario C of the specification on \<open>jobs_crew_read\<close>, the policy taken alone: its
  expression is true of job J1 for crew member M1 when the assignment of M1 to J1 is
  stored, not true when no assignment is stored, and not true when the one assignment
  of J1 is that of another crew member.
\<close>

lemma jobs_crew_read_alone:
  "policy_passes assigned_tables crew_M1 jobs_crew_read SELECT (map_of [(''id'', uuid_J1)])
   \<and> \<not> policy_passes (\<lambda>t. []) crew_M1 jobs_crew_read SELECT (map_of [(''id'', uuid_J1)])
   \<and> \<not> policy_passes other_assignment crew_M1 jobs_crew_read SELECT (map_of [(''id'', uuid_J1)])"
proof -
  have r1: "rls_rows assigned_tables crew_M1 [''jobs''] ''job_crew_assignments''
              = Inr (assigned_tables ''job_crew_assignments'')"
    by (simp add: rls_rows.simps [of _ _ "[''jobs'']" "''job_crew_assignments''"]
        select_subs_values job_crew_assignments_quals assigned_rows eval_role_is role_facts
        id_facts)
  have r2: "rls_rows (\<lambda>t. []) crew_M1 [''jobs''] ''job_crew_assignments'' = Inr []"
    by (simp add: rls_rows.simps [of _ _ "[''jobs'']" "''job_crew_assignments''"]
        select_subs_values)
  have r3: "rls_rows other_assignment crew_M1 [''jobs''] ''job_crew_assignments'' = Inr []"
    by (simp add: rls_rows.simps [of _ _ "[''jobs'']" "''job_crew_assignments''"]
        select_subs_values job_crew_assignments_quals other_assignment_rows eval_role_is
        role_facts id_facts example_uuids_differ)
  show ?thesis
    by (simp add: policy_passes_def jobs_crew_read_def policy_shapes well_scoped_helpers
        policy_expr_def eval_role_is role_facts id_facts assigned_to_crew_def r1 r2 r3
        assigned_rows sql_in_def)
qed

text \<open>
  C4. The relationship predicate with a two-hop join path in the file is that of
  \<open>contacts_crew_read\<close>: a contact is reached from a job (\<open>jobs.contact_id\<close>) that is
  reached from an assignment (\<open>job_crew_assignments.job_id\<close>) of the crew member. By
  the claim it is true exactly when such a chain exists. As declared, the sub-select
  names \<open>job_crew_assignments\<close> without a FROM entry: the declaration is not accepted
  and the policy passes for no caller, command, row or table content. For crew member
  M1 assigned to job J1 of contact C1, the two-hop predicate of the specification is
  true, and reading the contacts row C1 is refused. The one-hop example of the claim,
  crew visibility into jobs, fails too: for the same crew member reading job J1 the
  statement aborts with the recursion error.
\<close>

theorem contacts_crew_read_rejected:
  "\<not> accepted contacts_crew_read
   \<and> (\<forall>tb cl c r. \<not> policy_passes tb cl contacts_crew_read c r)
   \<and> rls_statement assigned_tables crew_M1 ''contacts'' SELECT rd (map_of [(''id'', uuid_C1)])
       = Inr False
   \<and> fst (resolve store_lookup assigned_tables
            (ExistsRelated [(''id'', ''jobs'', ''contact_id''),
                            (''id'', ''job_crew_assignments'', ''job_id'')]
               ''crew_member_id'' ''crew_member_id'')
            crew_P1 (map_of [(''id'', uuid_C1)]) []) = Inr True
   \<and> rls_statement assigned_tables crew_M1 ''jobs'' SELECT rd (map_of [(''id'', uuid_J1)])
       = Inl InfiniteRecursion"
proof -
  have a: "\<not> accepted contacts_crew_read"
    by (simp add: accepted_def contacts_crew_read_def for_select_def)
  have b: "\<not> policy_passes tb cl contacts_crew_read c r" for tb cl c r
    using a by (simp add: policy_passes_def)
  have c: "rls_statement assigned_tables crew_M1 ''contacts'' SELECT rd (map_of [(''id'', uuid_C1)])
       = Inr False"
    by (rule crew_contacts) (rule role_facts)
  have d: "fst (resolve store_lookup assigned_tables
            (ExistsRelated [(''id'', ''jobs'', ''contact_id''),
                            (''id'', ''job_crew_assignments'', ''job_id'')]
               ''crew_member_id'' ''crew_member_id'')
            crew_P1 (map_of [(''id'', uuid_C1)]) []) = Inr True"
    unfolding resolve_two_hop field_equals_iff
    by (simp add: assigned_rows crew_P1_def)
  have e: "rls_statement assigned_tables crew_M1 ''jobs'' SELECT rd (map_of [(''id'', uuid_J1)])
       = Inl InfiniteRecursion"
    by (rule cyclic_aborts) (simp_all add: cyclic_tables_def)
  from a b c d e show ?thesis by blast
qed

lemma rls_rows_jobs:
  "rls_rows tb cl [''invoices''] ''jobs'' =
     keep_rows
       (\<lambda>r. first_true (eval_expr (\<lambda>t'. rls_rows tb cl [''jobs'', ''invoices''] t') cl [(''jobs'', r)])
              (using_quals ''jobs'' SELECT))
       (tb ''jobs'')"
  by (simp add: rls_rows.simps [of tb cl "[''invoices'']" "''jobs''"] select_subs_values)

text \<open>
  The policy \<open>invoices_client_own\<close> taken alone is the via-job test: for a caller with
  role client it is true of an invoices row exactly when a stored job has the
  invoice's \<open>job_id\<close> as id and the caller's \<open>contact_id\<close> claim as \<open>contact_id\<close>.
\<close>

lemma invoices_client_own_alone:
  assumes "get_jwt_role cl = Some ''client''"
  shows "policy_passes tb cl invoices_client_own SELECT r \<longleftrightarrow>
     (\<exists>j \<in> set (tb ''jobs''). (\<exists>v. r ''job_id'' = Some v \<and> j ''id'' = Some v)
        \<and> (\<exists>u. j ''contact_id'' = Some u \<and> get_contact_id cl = Inr (Some u)))"
proof -
  let ?sub = "\<lambda>t'. rls_rows tb cl [''invoices''] t'"
  let ?F = "\<lambda>j. first_true (eval_expr (\<lambda>t'. rls_rows tb cl [''jobs'', ''invoices''] t') cl [(''jobs'', j)])
              (using_quals ''jobs'' SELECT)"
  have sa: "sql_and (Some True) x = Some True \<longleftrightarrow> x = Some True" for x
    by (induction "Some True" x rule: sql_and.induct) auto
  have pp: "policy_passes tb cl invoices_client_own SELECT r \<longleftrightarrow>
      eval_expr ?sub cl [(''invoices'', r)] (job_of_contact ''job_id'') = Inr (Some True)"
    using assms
    by (auto simp: policy_passes_def invoices_client_own_def policy_shapes well_scoped_helpers
        policy_expr_def eval_role_is sa split: sum.splits)
  show ?thesis
  proof (cases "get_contact_id cl")
    case (Inl e)
    have F: "?F j = Inl e" for j
      using assms Inl by (simp add: jobs_quals eval_role_is)
    have "eval_expr ?sub cl [(''invoices'', r)] (job_of_contact ''job_id'') \<noteq> Inr (Some True)"
    proof (cases "tb ''jobs'' = []")
      case True
      then show ?thesis
        by (simp add: job_of_contact_def rls_rows_jobs sql_in_def)
    next
      case False
      then have "rls_rows tb cl [''invoices''] ''jobs'' = Inl e"
        unfolding rls_rows_jobs using F by (intro keep_rows_error) simp_all
      then show ?thesis
        by (simp add: job_of_contact_def)
    qed
    with Inl show ?thesis
      by (simp add: pp)
  next
    case (Inr y)
    have F: "?F j = Inr (sql_eq (j ''contact_id'') y = Some True)" for j
      using assms Inr by (simp add: jobs_quals eval_role_is sa)
    have rows: "rls_rows tb cl [''invoices''] ''jobs''
                  = Inr (filter (\<lambda>j. sql_eq (j ''contact_id'') y = Some True) (tb ''jobs''))"
      unfolding rls_rows_jobs by (simp add: keep_rows_Inr F)
    have eq: "sql_eq a y = Some True \<longleftrightarrow> (\<exists>u. a = Some u \<and> y = Some u)" for a
      by (cases a; cases y) auto
    have "eval_expr ?sub cl [(''invoices'', r)] (job_of_contact ''job_id'') = Inr (Some True)
      \<longleftrightarrow> (\<exists>j \<in> set (tb ''jobs''). (\<exists>v. r ''job_id'' = Some v \<and> j ''id'' = Some v)
            \<and> (\<exists>u. j ''contact_id'' = Some u \<and> y = Some u))"
      using Inr
      by (auto simp: job_of_contact_def rows keep_rows_Inr sql_in_True eq)
    with Inr show ?thesis
      by (simp add: pp)
  qed
qed

text \<open>
  The expression of the note compares a column of the invoices row itself and reads no
  other table.
\<close>

lemma invoices_note_expression:
  "sub_tables invoices_client_own_note = []
   \<and> eval_expr sub cl [(''invoices'', r)] invoices_client_own_note
       = (case get_contact_id cl of
            Inl e \<Rightarrow> Inl e
          | Inr v \<Rightarrow> Inr (sql_eq (r ''customer_id'') v))"
  by (simp add: invoices_client_own_note_def)

text \<open>
  C5. A client is to read an invoice exactly when the invoice's job belongs to the
  client's contact. The policy of the file, \<open>invoices_client_own\<close>, is a sub-select on
  jobs, and reaches the cycle between the policies of jobs and job\_crew\_assignments:
  every SELECT on invoices, by any caller, aborts with the recursion error. For client
  C1 and invoice I1 of job J1 of contact C1, the policy taken alone is true of the row
  and the engine of the specification returns ALLOW, while the SELECT aborts.
\<close>

theorem client_invoice_read_aborts:
  "(\<forall>tb cl rd r. rls_statement tb cl ''invoices'' SELECT rd r = Inl InfiniteRecursion)
   \<and> get_jwt_role client_C1 = Some ''client''
   \<and> get_contact_id client_C1 = Inr (Some uuid_C1)
   \<and> rls_statement assigned_tables client_C1 ''invoices'' SELECT True invoice_I1
       = Inl InfiniteRecursion
   \<and> policy_passes assigned_tables client_C1 invoices_client_own SELECT invoice_I1
   \<and> verdict (fst (fst (decide store_lookup
        \<lparr>registry = acs_registry, store = assigned_tables, sink = []\<rparr>
        client_P1 ''invoices'' Read invoice_I1))) = ALLOW"
proof -
  have a: "rls_statement tb cl ''invoices'' SELECT rd r = Inl InfiniteRecursion" for tb cl rd r
    by (rule cyclic_aborts) (simp_all add: cyclic_tables_def)
  have rows: "rls_rows assigned_tables client_C1 [''invoices''] ''jobs''
                = Inr (assigned_tables ''jobs'')"
    by (simp add: rls_rows_jobs jobs_quals assigned_rows eval_role_is role_facts id_facts)
  have p: "policy_passes assigned_tables client_C1 invoices_client_own SELECT invoice_I1"
    by (simp add: policy_passes_def invoices_client_own_def policy_shapes well_scoped_helpers
        policy_expr_def eval_role_is role_facts id_facts job_of_contact_def rows assigned_rows
        invoice_I1_def sql_in_def)
  have e: "verdict (fst (fst (decide store_lookup
        \<lparr>registry = acs_registry, store = assigned_tables, sink = []\<rparr>
        client_P1 ''invoices'' Read invoice_I1))) = ALLOW"
    unfolding verdict_decide
    by (simp add: evaluate_def policiesFor_def acs_registry_def all_operations_def
        client_P1_def first_match_single resolve_one_hop field_equals_iff assigned_rows
        invoice_I1_def
        del: first_match.simps resolve.simps(3,4,5) walk.simps)
  from a p e role_facts(5) id_facts(3) show ?thesis by blast
qed






text \<open>
  C7. A principal with role admin is to carry no scoped id. The admin token of
  docs/AUTH\_MATRIX.md, the payload the helpers read, carries \<open>contact_id\<close> beside
  \<open>role = admin\<close> (the same document lists this among its identified gaps).
\<close>

theorem admin_token_carries_contact_id:
  "get_jwt_role admin_jwt = Some ''admin''
   \<and> get_contact_id admin_jwt = Inr (Some ''550e8400-e29b-41d4-a716-446655440001'')
   \<and> get_crew_member_id admin_jwt = Inr None"
  by (simp add: get_jwt_role_def get_contact_id_def get_crew_member_id_def admin_jwt_def
      uuid_defs)

lemma quote_services_no_recursion: "\<not> statement_recursion ''quote_services'' SELECT rd"
  by (simp add: statement_recursion_def statement_subs_SELECT quote_services_subs
      select_recursion.simps [of _ "''quotes''"] select_subs_values)

text \<open>
  C8, as stated: two calls with the same principal, entity, operation and row under
  the same policies give the same verdict. The outcome depends on the stored rows too:
  client C1 reading the same quote\_services row is granted when quote Q1 of contact C1
  is stored and refused when it is not. So it is in the engine of the specification,
  with one registry: crew member M1 reading job J1 is allowed or denied as the
  assignment is stored or not, and denied when the lookup fails.
\<close>

theorem stored_rows_counterexample:
  "rls_statement quote_tables client_C1 ''quote_services'' SELECT True quote_service_Q1 = Inr True
   \<and> rls_statement (\<lambda>t. []) client_C1 ''quote_services'' SELECT True quote_service_Q1 = Inr False
   \<and> verdict (fst (fst (decide store_lookup
        \<lparr>registry = acs_registry, store = assigned_tables, sink = []\<rparr>
        crew_P1 ''jobs'' Read (map_of [(''id'', uuid_J1)])))) = ALLOW
   \<and> verdict (fst (fst (decide store_lookup
        \<lparr>registry = acs_registry, store = (\<lambda>t. []), sink = []\<rparr>
        crew_P1 ''jobs'' Read (map_of [(''id'', uuid_J1)])))) = DENY
   \<and> verdict (fst (fst (decide failing_lookup
        \<lparr>registry = acs_registry, store = assigned_tables, sink = []\<rparr>
        crew_P1 ''jobs'' Read (map_of [(''id'', uuid_J1)])))) = DENY"
proof -
  have v1: "visible quote_tables client_C1 ''quotes'' = Inr (quote_tables ''quotes'')"
    by (simp add: visible_def rls_rows.simps [of _ _ _ "''quotes''"] select_subs_values
        quotes_quals quote_rows eval_role_is role_facts id_facts)
  have v2: "visible (\<lambda>t. []) client_C1 ''quotes'' = Inr []"
    by (simp add: visible_def rls_rows.simps [of _ _ _ "''quotes''"] select_subs_values)
  have a: "rls_statement quote_tables client_C1 ''quote_services'' SELECT True quote_service_Q1
             = Inr True"
    by (simp add: rls_statement_def quote_services_no_recursion statement_groups_def
        quote_services_quals eval_role_is role_facts id_facts rls_rows_flat select_subs_values
        v1 quote_rows quote_service_Q1_def sql_in_def)
  have b: "rls_statement (\<lambda>t. []) client_C1 ''quote_services'' SELECT True quote_service_Q1
             = Inr False"
    by (simp add: rls_statement_def quote_services_no_recursion statement_groups_def
        quote_services_quals eval_role_is role_facts id_facts rls_rows_flat select_subs_values
        v2 quote_service_Q1_def sql_in_def)
  have c: "verdict (fst (fst (decide store_lookup
        \<lparr>registry = acs_registry, store = assigned_tables, sink = []\<rparr>
        crew_P1 ''jobs'' Read (map_of [(''id'', uuid_J1)])))) = ALLOW"
    unfolding verdict_decide
    by (simp add: evaluate_def policiesFor_def acs_registry_def all_operations_def
        crew_P1_def first_match_single resolve_one_hop field_equals_iff assigned_rows
        del: first_match.simps resolve.simps(3,4,5) walk.simps)
  have d: "verdict (fst (fst (decide store_lookup
        \<lparr>registry = acs_registry, store = (\<lambda>t. []), sink = []\<rparr>
        crew_P1 ''jobs'' Read (map_of [(''id'', uuid_J1)])))) = DENY"
    unfolding verdict_decide
    by (simp add: evaluate_def policiesFor_def acs_registry_def all_operations_def
        crew_P1_def first_match_single resolve_one_hop field_equals_iff
        del: first_match.simps resolve.simps(3,4,5) walk.simps)
  have e: "verdict (fst (fst (decide failing_lookup
        \<lparr>registry = acs_registry, store = assigned_tables, sink = []\<rparr>
        crew_P1 ''jobs'' Read (map_of [(''id'', uuid_J1)])))) = DENY"
    unfolding verdict_decide
    by (simp add: evaluate_def policiesFor_def acs_registry_def all_operations_def
        crew_P1_def failing_lookup_def Let_def)
  from a b c d e show ?thesis by blast
qed

text \<open>
  C8, amended. The outcome of a statement (granted, refused or aborted) is a function of
  the table, the command, the row, the role, \<open>crew_member_id\<close> and \<open>contact_id\<close> claims
  of the caller, and the rows of the five tables the sub-selects of the policies read:
  two statements that agree on these have the same outcome, whatever else the claims
  (\<open>iat\<close>, \<open>exp\<close> and the like) and the other tables hold. Evaluation returns an outcome
  and nothing else: no table is written.
\<close>

theorem same_reads_same_outcome:
  assumes "\<forall>t' \<in> set [''jobs'', ''job_crew_assignments'', ''invoices'', ''quotes'',
                        ''conversations'']. tb t' = tb' t'"
    and "get_jwt_role cl = get_jwt_role cl'"
    and "get_crew_member_id cl = get_crew_member_id cl'"
    and "get_contact_id cl = get_contact_id cl'"
  shows "rls_statement tb cl t c rd r = rls_statement tb' cl' t c rd r"
proof (rule statement_frame)
  show "\<forall>t' \<in> set sub_selected_tables. tb t' = tb' t'"
    using assms(1) by (simp add: what_is_read)
  show "\<forall>f \<in> set called_helpers. call_jwt cl f = call_jwt cl' f"
    using assms(2-4) by (simp add: what_is_read)
qed

theorem same_reads_same_outcome_witness:
  "quote_tables ''jobs'' = quote_tables_settings ''jobs''
   \<and> quote_tables ''job_crew_assignments'' = quote_tables_settings ''job_crew_assignments''
   \<and> quote_tables ''invoices'' = quote_tables_settings ''invoices''
   \<and> quote_tables ''quotes'' = quote_tables_settings ''quotes''
   \<and> quote_tables ''conversations'' = quote_tables_settings ''conversations''
   \<and> quote_tables ''settings'' \<noteq> quote_tables_settings ''settings''
   \<and> client_C1 ''iat'' \<noteq> client_C1_iat ''iat''
   \<and> get_jwt_role client_C1 = get_jwt_role client_C1_iat
   \<and> get_crew_member_id client_C1 = get_crew_member_id client_C1_iat
   \<and> get_contact_id client_C1 = get_contact_id client_C1_iat
   \<and> rls_statement quote_tables client_C1 ''quote_services'' SELECT True quote_service_Q1
       = rls_statement quote_tables_settings client_C1_iat ''quote_services'' SELECT True
           quote_service_Q1"
proof -
  have h1: "\<forall>t' \<in> set [''jobs'', ''job_crew_assignments'', ''invoices'', ''quotes'',
                        ''conversations'']. quote_tables t' = quote_tables_settings t'"
    by (simp add: quote_tables_settings_def)
  have h2: "get_jwt_role client_C1 = get_jwt_role client_C1_iat"
    "get_crew_member_id client_C1 = get_crew_member_id client_C1_iat"
    "get_contact_id client_C1 = get_contact_id client_C1_iat"
    by (simp_all add: client_C1_iat_def get_jwt_role_def get_crew_member_id_def
        get_contact_id_def)
  have d: "quote_tables ''settings'' \<noteq> quote_tables_settings ''settings''"
    "client_C1 ''iat'' \<noteq> client_C1_iat ''iat''"
    by (simp_all add: quote_tables_settings_def quote_tables_def client_C1_iat_def client_C1_def)
  have "rls_statement quote_tables client_C1 ''quote_services'' SELECT True quote_service_Q1
       = rls_statement quote_tables_settings client_C1_iat ''quote_services'' SELECT True
           quote_service_Q1"
    using h1 h2 by (rule same_reads_same_outcome)
  with h1 h2 d show ?thesis by simp
qed













end
